theory Spec2Isabelle
  imports Main
begin

section \<open>Strings of the host language\<close>

text \<open>
  A source string is modelled as a \<open>string\<close>, one \<open>char\<close> per code unit (the model covers
  the code units \<open>0x00 .. 0xFF\<close>). \<open>isSpace\<close> is the class that both \<open>String.prototype.trim\<close>
  and the regular-expression escape \<open>\s\<close> use (white space and line terminators), \<open>isWord\<close>
  is the class of \<open>\w\<close>.
\<close>

definition NL :: char where
  "NL = CHR 0x0A"

definition DQ :: char where
  "DQ = CHR 0x22"

definition BS :: char where
  "BS = CHR 0x5C"

definition isSpace :: "char \<Rightarrow> bool" where
  "isSpace c = (let n = (of_char c :: nat) in (9 \<le> n \<and> n \<le> 13) \<or> n = 32 \<or> n = 160)"

definition isDigit :: "char \<Rightarrow> bool" where
  "isDigit c = (let n = (of_char c :: nat) in 48 \<le> n \<and> n \<le> 57)"

definition isWord :: "char \<Rightarrow> bool" where
  "isWord c = (let n = (of_char c :: nat) in
     (48 \<le> n \<and> n \<le> 57) \<or> (65 \<le> n \<and> n \<le> 90) \<or> (97 \<le> n \<and> n \<le> 122) \<or> n = 95)"

definition trim :: "string \<Rightarrow> string" where
  "trim s = rev (dropWhile isSpace (rev (dropWhile isSpace s)))"

text \<open>\<open>Array.prototype.join\<close> on an array of strings.\<close>

fun join :: "string \<Rightarrow> string list \<Rightarrow> string" where
  "join sep [] = []"
| "join sep [x] = x"
| "join sep (x # y # ys) = x @ sep @ join sep (y # ys)"

text \<open>\<open>Number.prototype.toString\<close> on a non-negative integer (decimal digits).\<close>

fun toString :: "nat \<Rightarrow> string" where
  "toString n = (if n < 10 then [char_of (48 + n)]
                 else toString (n div 10) @ [char_of (48 + n mod 10)])"

declare toString.simps [simp del]

section \<open>JSON values and the platform's parser\<close>

text \<open>
  The value that \<open>JSON.parse\<close> returns. A number keeps its lexeme (the properties below
  only ask whether a value is a string or an array), an object is the list of its members.
\<close>

datatype json =
    JNull
  | JBool bool
  | JNumber string
  | JString string
  | JArray "json list"
  | JObject "(string \<times> json) list"

text \<open>
  \<open>JSON.parse\<close> is a function of the platform, not of this repository: the operations below
  take it as the parameter \<open>parse\<close>, \<open>Inl\<close> carrying the message of the \<open>SyntaxError\<close>
  it throws. \<open>JSON_parse\<close> is a recursive-descent reading of the JSON grammar (ECMA-404) for
  the texts that the properties below name: scalars and arrays, with strings of 8-bit code
  units. Where the reading yields a value, that value is the result. Every other text is left
  to the platform's own parser, the parameter \<open>platform\<close>: a text that the grammar rejects
  (the message of the error is the engine's), a text with an object in it, and a text with a
  \<open>\u\<close> escape above \<open>00FF\<close>, which the character type cannot hold. The recursion is bounded
  by fuel; every call consumes input, so the length of the text is enough fuel.
\<close>

type_synonym parser = "string \<Rightarrow> string + json"

definition isJsonWs :: "char \<Rightarrow> bool" where
  "isJsonWs c = (let n = (of_char c :: nat) in n = 32 \<or> n = 9 \<or> n = 10 \<or> n = 13)"

definition hexVal :: "char \<Rightarrow> nat option" where
  "hexVal c = (let n = (of_char c :: nat) in
     if 48 \<le> n \<and> n \<le> 57 then Some (n - 48)
     else if 65 \<le> n \<and> n \<le> 70 then Some (n - 55)
     else if 97 \<le> n \<and> n \<le> 102 then Some (n - 87)
     else None)"

definition hex4 :: "char \<Rightarrow> char \<Rightarrow> char \<Rightarrow> char \<Rightarrow> nat option" where
  "hex4 a b c d =
     (case (hexVal a, hexVal b, hexVal c, hexVal d) of
        (Some w, Some x, Some y, Some z) \<Rightarrow> Some (((w * 16 + x) * 16 + y) * 16 + z)
      | _ \<Rightarrow> None)"

definition escapeChar :: "char \<Rightarrow> char option" where
  "escapeChar e =
     (if e = DQ then Some DQ
      else if e = BS then Some BS
      else if e = CHR ''/'' then Some (CHR ''/'')
      else if e = CHR ''b'' then Some (CHR 0x08)
      else if e = CHR ''f'' then Some (CHR 0x0C)
      else if e = CHR ''n'' then Some (CHR 0x0A)
      else if e = CHR ''r'' then Some (CHR 0x0D)
      else if e = CHR ''t'' then Some (CHR 0x09)
      else None)"

fun parseStringBody :: "string \<Rightarrow> string \<Rightarrow> (string \<times> string) option" where
  "parseStringBody acc [] = None"
| "parseStringBody acc [c] = (if c = DQ then Some (acc, []) else None)"
| "parseStringBody acc (c # e # r) =
     (if c = DQ then Some (acc, e # r)
      else if c = BS then
        (if e = CHR ''u'' then
           (case r of
              h1 # h2 # h3 # h4 # r' \<Rightarrow>
                (case hex4 h1 h2 h3 h4 of
                   Some n \<Rightarrow> if n < 256 then parseStringBody (acc @ [char_of n]) r' else None
                 | None \<Rightarrow> None)
            | _ \<Rightarrow> None)
         else (case escapeChar e of
                 Some x \<Rightarrow> parseStringBody (acc @ [x]) r
               | None \<Rightarrow> None))
      else if (of_char c :: nat) < 32 then None
      else parseStringBody (acc @ [c]) (e # r))"

definition scanDigits :: "string \<Rightarrow> (string \<times> string) option" where
  "scanDigits s = (if takeWhile isDigit s = [] then None
                   else Some (takeWhile isDigit s, dropWhile isDigit s))"

definition scanInt :: "string \<Rightarrow> (string \<times> string) option" where
  "scanInt s =
     (case s of
        [] \<Rightarrow> None
      | c # r \<Rightarrow> if c = CHR ''0'' then Some (''0'', r) else scanDigits s)"

definition scanFrac :: "string \<Rightarrow> (string \<times> string) option" where
  "scanFrac s =
     (case s of
        [] \<Rightarrow> Some ([], [])
      | c # r \<Rightarrow>
          if c = CHR ''.'' then
            (case scanDigits r of Some (ds, r') \<Rightarrow> Some (c # ds, r') | None \<Rightarrow> None)
          else Some ([], s))"

definition scanExp :: "string \<Rightarrow> (string \<times> string) option" where
  "scanExp s =
     (case s of
        [] \<Rightarrow> Some ([], [])
      | c # r \<Rightarrow>
          if c = CHR ''e'' \<or> c = CHR ''E'' then
            (case r of
               [] \<Rightarrow> None
             | g # r' \<Rightarrow>
                 if g = CHR ''+'' \<or> g = CHR ''-'' then
                   (case scanDigits r' of Some (ds, r'') \<Rightarrow> Some (c # g # ds, r'') | None \<Rightarrow> None)
                 else
                   (case scanDigits r of Some (ds, r'') \<Rightarrow> Some (c # ds, r'') | None \<Rightarrow> None))
          else Some ([], s))"

definition scanNumber :: "string \<Rightarrow> (string \<times> string) option" where
  "scanNumber s =
     (let (sign, s1) = (case s of
                          [] \<Rightarrow> ([], [])
                        | c # r \<Rightarrow> if c = CHR ''-'' then ([c], r) else ([], s))
      in case scanInt s1 of
           None \<Rightarrow> None
         | Some (i, s2) \<Rightarrow>
             (case scanFrac s2 of
                None \<Rightarrow> None
              | Some (f, s3) \<Rightarrow>
                  (case scanExp s3 of
                     None \<Rightarrow> None
                   | Some (e, s4) \<Rightarrow> Some (sign @ i @ f @ e, s4))))"

definition scanLiteral :: "string \<Rightarrow> (json \<times> string) option" where
  "scanLiteral s =
     (if take 4 s = ''null'' then Some (JNull, drop 4 s)
      else if take 4 s = ''true'' then Some (JBool True, drop 4 s)
      else if take 5 s = ''false'' then Some (JBool False, drop 5 s)
      else map_option (apfst JNumber) (scanNumber s))"

fun parseValue :: "nat \<Rightarrow> string \<Rightarrow> (json \<times> string) option"
and parseElements :: "nat \<Rightarrow> string \<Rightarrow> (json list \<times> string) option"
where
  "parseValue 0 s = None"
| "parseValue (Suc n) s =
     (case dropWhile isJsonWs s of
        [] \<Rightarrow> None
      | c # cs \<Rightarrow>
          if c = CHR ''['' then
            (case dropWhile isJsonWs cs of
               [] \<Rightarrow> None
             | x # r \<Rightarrow> if x = CHR '']'' then Some (JArray [], r)
                        else map_option (apfst JArray) (parseElements n cs))
          else if c = CHR ''{'' then None
          else if c = DQ then map_option (apfst JString) (parseStringBody [] cs)
          else scanLiteral (c # cs))"
| "parseElements 0 s = None"
| "parseElements (Suc n) s =
     (case parseValue n s of
        None \<Rightarrow> None
      | Some (v, r) \<Rightarrow>
          (case dropWhile isJsonWs r of
             [] \<Rightarrow> None
           | x # r' \<Rightarrow>
               if x = CHR '','' then
                 (case parseElements n r' of
                    Some (vs, r'') \<Rightarrow> Some (v # vs, r'')
                  | None \<Rightarrow> None)
               else if x = CHR '']'' then Some ([v], r')
               else None))"

definition JSON_parse :: "parser \<Rightarrow> parser" where
  "JSON_parse platform s =
     (case parseValue (Suc (length s)) s of
        None \<Rightarrow> platform s
      | Some (v, r) \<Rightarrow> if dropWhile isJsonWs r = [] then Inr v else platform s)"

section \<open>The generative service client\<close>

text \<open>
  The module holds one client \<open>ai\<close>, which is \<open>null\<close> when no key is configured;
  \<open>isAIServiceAvailable\<close> is \<open>!!ai\<close>. The model passes that flag as the parameter \<open>ai\<close>.
  The backend is an oracle from the prompt to what the transport does: a call of
  \<open>generateContent\<close> either throws or answers with a text, a call of
  \<open>generateContentStream\<close> delivers chunks and then ends or throws (an empty list of chunks
  with a failure is a request that was rejected before any chunk). The stream is taken to be
  finite: the source has no timeout, and a stream that never ends never completes.
  Every request that is issued is recorded, in order.
\<close>

record apiError =
  errMessage :: string
  errResponseText :: "string option"

datatype transport = Threw apiError | Responded string

datatype streamResponse = StreamResponse (chunks: "string list") (failure: "string option")

datatype request = GenerateContentJson string | GenerateContentStream string

definition isAIServiceAvailable :: "bool \<Rightarrow> bool" where
  "isAIServiceAvailable ai = ai"

subsection \<open>The fence expression\<close>

text \<open>
  \<open>/^```(\w*)?\s*\n?(.*?)\n?\s*```$/s\<close> is read as the backtracking matcher it denotes: each
  piece takes a continuation for the rest of the expression, a greedy piece tries the longest
  choice first, the lazy piece the shortest, and the first success is the match. The matcher
  returns the second group. The first group is not used by the caller, so it is not recorded.
\<close>

definition fence :: string where
  "fence = ''```''"

definition lit :: "string \<Rightarrow> (string \<Rightarrow> 'a option) \<Rightarrow> string \<Rightarrow> 'a option" where
  "lit p k s = (if take (length p) s = p then k (drop (length p) s) else None)"

fun greedyStar :: "(char \<Rightarrow> bool) \<Rightarrow> (string \<Rightarrow> 'a option) \<Rightarrow> string \<Rightarrow> 'a option" where
  "greedyStar P k [] = k []"
| "greedyStar P k (c # cs) =
     (if P c then (case greedyStar P k cs of Some r \<Rightarrow> Some r | None \<Rightarrow> k (c # cs))
      else k (c # cs))"

fun optChar :: "char \<Rightarrow> (string \<Rightarrow> 'a option) \<Rightarrow> string \<Rightarrow> 'a option" where
  "optChar x k [] = k []"
| "optChar x k (c # cs) =
     (if c = x then (case k cs of Some r \<Rightarrow> Some r | None \<Rightarrow> k (c # cs))
      else k (c # cs))"

fun lazyAny :: "(string \<Rightarrow> string \<Rightarrow> 'a option) \<Rightarrow> string \<Rightarrow> string \<Rightarrow> 'a option" where
  "lazyAny k g [] = k g []"
| "lazyAny k g (c # cs) =
     (case k g (c # cs) of Some r \<Rightarrow> Some r | None \<Rightarrow> lazyAny k (g @ [c]) cs)"

definition eos :: "'a \<Rightarrow> string \<Rightarrow> 'a option" where
  "eos g s = (if s = [] then Some g else None)"

definition fenceRegex :: "string \<Rightarrow> string option" where
  "fenceRegex s =
     lit fence
       (greedyStar isWord
         (greedyStar isSpace
           (optChar NL
             (lazyAny (\<lambda>g. optChar NL (greedyStar isSpace (lit fence (eos g)))) [])))) s"

subsection \<open>generateJson\<close>

text \<open>
  The result is \<open>Inl\<close> of the message of the error that is thrown, or \<open>Inr\<close> of the value that
  is returned (\<open>JNull\<close> is \<open>null\<close>). The \<open>catch\<close> block wraps every error of the \<open>try\<close> block:
  the transport's, the one raised for an empty payload, and the parser's.
\<close>

definition wrapError :: "apiError \<Rightarrow> string" where
  "wrapError e =
     ''Failed to generate or parse JSON from AI. AI response might not be valid JSON. Raw text (if available): ''
     @ (case errResponseText e of
          Some t \<Rightarrow> if t \<noteq> [] then t else ''N/A''
        | None \<Rightarrow> ''N/A'')
     @ ''. Original error: '' @ errMessage e"

definition stripFence :: "string \<Rightarrow> string" where
  "stripFence text =
     (let jsonStr = trim text
      in case fenceRegex jsonStr of
           Some g \<Rightarrow> if g \<noteq> [] then trim g else jsonStr
         | None \<Rightarrow> jsonStr)"

definition generateJson ::
  "parser \<Rightarrow> bool \<Rightarrow> (string \<Rightarrow> transport) \<Rightarrow> string \<Rightarrow> request list \<times> (string + json)" where
  "generateJson parse ai generateContent prompt =
     (if \<not> ai then ([], Inr JNull)
      else
        ([GenerateContentJson prompt],
         case generateContent prompt of
           Threw e \<Rightarrow> Inl (wrapError e)
         | Responded text \<Rightarrow>
             (let jsonStr = stripFence text
              in if jsonStr = [] then
                   Inl (wrapError \<lparr>errMessage = ''Received empty JSON string from AI.'',
                                   errResponseText = None\<rparr>)
                 else
                   (case parse jsonStr of
                      Inl m \<Rightarrow> Inl (wrapError \<lparr>errMessage = m, errResponseText = None\<rparr>)
                    | Inr v \<Rightarrow> Inr v))))"

subsection \<open>generateTextStream\<close>

text \<open>
  The callbacks are state transformers of the caller. With no client, \<open>onError\<close> and
  \<open>onComplete\<close> run at once. Otherwise the \<open>for await\<close> loop runs \<open>onChunk\<close> on every chunk,
  the \<open>catch\<close> block runs \<open>onError\<close> if the transport failed, and the \<open>finally\<close> block runs
  \<open>onComplete\<close>.
\<close>

definition generateTextStream ::
  "bool \<Rightarrow> streamResponse \<Rightarrow> (string \<Rightarrow> 's \<Rightarrow> 's) \<Rightarrow> (string \<Rightarrow> 's \<Rightarrow> 's) \<Rightarrow> ('s \<Rightarrow> 's) \<Rightarrow> 's \<Rightarrow> 's" where
  "generateTextStream ai responseStream onChunk onError onComplete s =
     (if \<not> ai then onComplete (onError ''AI service is unavailable (API key missing).'' s)
      else
        (let s1 = fold onChunk (chunks responseStream) s;
             s2 = (case failure responseStream of
                     Some e \<Rightarrow> onError e s1
                   | None \<Rightarrow> s1)
         in onComplete s2))"

text \<open>The calls that a run of \<open>generateTextStream\<close> makes, as a trace.\<close>

datatype callback = OnChunk string | OnError string | OnComplete

definition callbackTrace :: "bool \<Rightarrow> streamResponse \<Rightarrow> callback list" where
  "callbackTrace ai responseStream =
     generateTextStream ai responseStream
       (\<lambda>c tr. tr @ [OnChunk c]) (\<lambda>e tr. tr @ [OnError e]) (\<lambda>tr. tr @ [OnComplete]) []"

fun replay ::
  "(string \<Rightarrow> 's \<Rightarrow> 's) \<Rightarrow> (string \<Rightarrow> 's \<Rightarrow> 's) \<Rightarrow> ('s \<Rightarrow> 's) \<Rightarrow> callback \<Rightarrow> 's \<Rightarrow> 's" where
  "replay onChunk onError onComplete (OnChunk c) s = onChunk c s"
| "replay onChunk onError onComplete (OnError e) s = onError e s"
| "replay onChunk onError onComplete OnComplete s = onComplete s"

section \<open>Documents and the context of a query\<close>

text \<open>
  Modelled from the spec: the declaration of \<open>Document\<close>, which lives in the module \<open>types\<close>
  and is not among the sources. The fields are those of the data model of the specification
  and of the uses in the components; \<open>fullContent\<close> and \<open>sourceUrl\<close> are optional. \<open>type\<close> is
  the string value of the enumeration \<open>DocumentType\<close>, declared in the same module.
\<close>

record Document =
  doc_id :: string
  name :: string
  type :: string
  tags :: "string list"
  contentSnippet :: string
  fullContent :: "string option"
  sourceUrl :: "string option"
  isFavorite :: bool

text \<open>Truthiness of an optional string: present and not empty.\<close>

definition truthy :: "string option \<Rightarrow> bool" where
  "truthy x = (case x of Some s \<Rightarrow> s \<noteq> [] | None \<Rightarrow> False)"

definition qualifies :: "Document \<Rightarrow> bool" where
  "qualifies doc = (contentSnippet doc \<noteq> [] \<or> truthy (fullContent doc))"

definition renderBlock :: "Document \<Rightarrow> string" where
  "renderBlock doc =
     ''Document Name: '' @ name doc @ ''\<newline>Type: '' @ type doc
     @ (if truthy (sourceUrl doc) then ''\<newline>Source URL: '' @ the (sourceUrl doc) else [])
     @ ''\<newline>Content Snippet: '' @ contentSnippet doc
     @ (if truthy (fullContent doc)
        then ''\<newline>Full Content Hint: '' @ take 100 (the (fullContent doc)) @ ''...''
        else [])"

definition separator :: string where
  "separator = ''\<newline>\<newline>---\<newline>\<newline>''"

definition contextBlocks :: "Document list \<Rightarrow> string list" where
  "contextBlocks documents = map renderBlock (take 5 (filter qualifies documents))"

definition contextSnippets :: "Document list \<Rightarrow> string" where
  "contextSnippets documents = join separator (contextBlocks documents)"

definition noDocuments :: string where
  "noDocuments = ''No documents available in the knowledge base.''"

definition knowledgeBase :: "Document list \<Rightarrow> string" where
  "knowledgeBase documents =
     (if length (contextSnippets documents) > 0 then contextSnippets documents else noDocuments)"

definition prompt :: "Document list \<Rightarrow> string \<Rightarrow> string" where
  "prompt documents questionToSubmit =
     ''You are a helpful AI assistant for the HEREANDNOW AI RESEARCH INSTITUTE. Your knowledge base consists of the following documents. Answer the user's question based ONLY on this information. If the answer is not found in the provided documents, state that clearly. Do not make up information. Be concise and professional.\<newline>\<newline>Knowledge Base:\<newline>''
     @ knowledgeBase documents
     @ ''\<newline>\<newline>User Question: '' @ questionToSubmit @ ''\<newline>\<newline>Answer:''"

section \<open>The attribution resolver\<close>

definition attributionPrompt :: "string \<Rightarrow> string \<Rightarrow> string \<Rightarrow> string" where
  "attributionPrompt userQuery context aiAnswer =
     ''Given the User Question, the Context from documents, and the AI's Answer, list the names of the original documents from the Context that were most relevant for generating this answer. Only list document names that appear in the provided context. If no specific documents were clearly primary sources, respond with an empty list.\<newline>\<newline>User Question: \"''
     @ userQuery
     @ ''\"\<newline>\<newline>Context Used:\<newline>---\<newline>'' @ context
     @ ''\<newline>---\<newline>\<newline>AI Answer: \"'' @ aiAnswer
     @ ''\"\<newline>\<newline>Relevant Document Names (as a JSON array of strings, e.g., [\"doc1.pdf\", \"policy_update.docx\"]):''"

text \<open>\<open>result.filter(name => typeof name === 'string')\<close>\<close>

fun stringEntries :: "json list \<Rightarrow> string list" where
  "stringEntries [] = []"
| "stringEntries (JString s # vs) = s # stringEntries vs"
| "stringEntries (v # vs) = stringEntries vs"

text \<open>
  The result is the list of requests issued and the value of the promise: \<open>None\<close> is
  \<open>undefined\<close>. The \<open>catch\<close> block turns every error of \<open>generateJson\<close> into \<open>undefined\<close>.
\<close>

definition fetchSourceAttribution ::
  "parser \<Rightarrow> bool \<Rightarrow> (string \<Rightarrow> transport) \<Rightarrow> string \<Rightarrow> string \<Rightarrow> string
     \<Rightarrow> request list \<times> string list option" where
  "fetchSourceAttribution parse ai generateContent userQuery context aiAnswer =
     (if trim aiAnswer = [] \<or> \<not> isAIServiceAvailable ai then ([], None)
      else
        (case generateJson parse ai generateContent (attributionPrompt userQuery context aiAnswer) of
           (reqs, Inl err) \<Rightarrow> (reqs, None)
         | (reqs, Inr (JArray vs)) \<Rightarrow> (reqs, Some (stringEntries vs))
         | (reqs, Inr v) \<Rightarrow> (reqs, None)))"

section \<open>The chat turn\<close>

text \<open>
  Modelled from the spec: the declaration of \<open>ChatMessage\<close>, from the same module \<open>types\<close>.
  The fields are those that the component writes and reads; \<open>isLoading\<close> and \<open>sources\<close> are
  optional (\<open>None\<close> is \<open>undefined\<close>), and a user message is created without them.
\<close>

datatype Sender = User | AI

record ChatMessage =
  msg_id :: string
  sender :: Sender
  "text" :: string
  timestamp :: nat
  isLoading :: "bool option"
  sources :: "string list option"

text \<open>
  The state of the component: the transcript, the input field, the component's own loading
  flag (\<open>isLoading\<close> of \<open>useState\<close>, here \<open>loading\<close>), the alerts shown and the requests
  sent to the service. Voice capture is left out: \<open>handleSendMessage\<close> only stops it, before
  anything else, and nothing below reads it.
\<close>

record agent =
  chatHistory :: "ChatMessage list"
  currentQuestion :: string
  loading :: bool
  alerts :: "string list"
  requests :: "request list"

definition initialAgent :: agent where
  "initialAgent = \<lparr>chatHistory = [], currentQuestion = [], loading = False,
                    alerts = [], requests = []\<rparr>"

text \<open>The readings of the clock that one submission takes, in order.\<close>

record clock =
  nowUser :: nat
  dateUser :: nat
  nowLoading :: nat
  dateLoading :: nat
  nowFinal :: nat

text \<open>
  The variables that the callbacks of one submission close over. \<open>attribution\<close> is the value
  of the promise that \<open>fetchSourceAttribution\<close> returned, which the completion callback is
  waiting for; \<open>phase\<close> says where the stream of the submission is.
\<close>

datatype phase = Streaming | Attributing | Done

record turn =
  loadingAiMessageId :: string
  finalAiMessageId :: string
  questionToSubmit :: string
  turnContext :: string
  accumulatedAnswer :: string
  attribution :: "string list option"
  phase :: phase

text \<open>
  \<open>prev.map(msg => msg.id === loadingAiMessageId && msg.isLoading ? f(msg) : msg)\<close>,
  the shape of every update that the callbacks make.
\<close>

definition updateLoading ::
  "string \<Rightarrow> (ChatMessage \<Rightarrow> ChatMessage) \<Rightarrow> ChatMessage list \<Rightarrow> ChatMessage list" where
  "updateLoading lid f h =
     map (\<lambda>msg. if msg_id msg = lid \<and> isLoading msg = Some True then f msg else msg) h"

definition errorText :: string where
  "errorText = ''Sorry, an error occurred while generating the answer.''"

definition noResponse :: string where
  "noResponse = ''No further response.''"

definition unavailableAlert :: string where
  "unavailableAlert = ''AI Service is not available. Please check API key configuration.''"

definition onChunk :: "string \<Rightarrow> turn \<times> agent \<Rightarrow> turn \<times> agent" where
  "onChunk chunk = (\<lambda>(t, st).
     (let acc = accumulatedAnswer t @ chunk
      in (t\<lparr>accumulatedAnswer := acc\<rparr>,
          st\<lparr>chatHistory :=
               updateLoading (loadingAiMessageId t) (\<lambda>msg. msg\<lparr>text := acc\<rparr>) (chatHistory st)\<rparr>)))"

definition onError :: "string \<Rightarrow> turn \<times> agent \<Rightarrow> turn \<times> agent" where
  "onError err = (\<lambda>(t, st).
     (t, st\<lparr>chatHistory :=
              updateLoading (loadingAiMessageId t)
                (\<lambda>msg. msg\<lparr>text := errorText, isLoading := Some False,
                            msg_id := finalAiMessageId t\<rparr>)
                (chatHistory st),
            loading := False\<rparr>))"

text \<open>
  The completion callback is \<open>async\<close>. \<open>onComplete\<close> is what it does when it is called, up to
  its \<open>await\<close>: it calls \<open>fetchSourceAttribution\<close>, which sends its request (if it sends
  one) before it returns its promise. \<open>onCompleteResume\<close> is the rest of the callback, which
  runs when that promise has been resolved.
\<close>

definition onComplete ::
  "parser \<Rightarrow> bool \<Rightarrow> (string \<Rightarrow> transport) \<Rightarrow> turn \<times> agent \<Rightarrow> turn \<times> agent" where
  "onComplete parse ai generateContent = (\<lambda>(t, st).
     (case fetchSourceAttribution parse ai generateContent
             (questionToSubmit t) (turnContext t) (accumulatedAnswer t) of
        (reqs, srcs) \<Rightarrow> (t\<lparr>attribution := srcs\<rparr>, st\<lparr>requests := requests st @ reqs\<rparr>)))"

definition onCompleteResume :: "turn \<times> agent \<Rightarrow> turn \<times> agent" where
  "onCompleteResume = (\<lambda>(t, st).
     (t, st\<lparr>chatHistory :=
              updateLoading (loadingAiMessageId t)
                (\<lambda>msg. msg\<lparr>text := (if accumulatedAnswer t \<noteq> [] then accumulatedAnswer t
                                      else noResponse),
                            isLoading := Some False,
                            msg_id := finalAiMessageId t,
                            sources := attribution t\<rparr>)
                (chatHistory st),
            loading := False\<rparr>))"

text \<open>
  \<open>handleSendMessage\<close> up to its call of \<open>generateTextStream\<close>: the new state and, if the
  guards let the submission through, the closure of the turn. The call itself sends the
  stream request (the client exists, by the second guard).
\<close>

definition query :: "string option \<Rightarrow> string \<Rightarrow> string" where
  "query message question = (if truthy message then the message else question)"

definition handleSendMessage ::
  "bool \<Rightarrow> clock \<Rightarrow> Document list \<Rightarrow> string option \<Rightarrow> agent \<Rightarrow> agent \<times> turn option" where
  "handleSendMessage ai clk documents message st =
     (let query = query message (currentQuestion st)
      in if trim query = [] then (st, None)
         else if \<not> isAIServiceAvailable ai then
           (st\<lparr>alerts := alerts st @ [unavailableAlert]\<rparr>, None)
         else
           (let userMessage = \<lparr>msg_id = toString (nowUser clk) @ ''_user'', sender = User,
                                text = query, timestamp = dateUser clk,
                                isLoading = None, sources = None\<rparr>;
                loadingId = toString (nowLoading clk) @ ''_ai_loading'';
                st1 = st\<lparr>chatHistory := chatHistory st @
                         [userMessage,
                          \<lparr>msg_id = loadingId, sender = AI, text = [],
                           timestamp = dateLoading clk, isLoading = Some True,
                           sources = None\<rparr>]\<rparr>;
                st2 = (if \<not> truthy message then st1\<lparr>currentQuestion := []\<rparr> else st1);
                st3 = st2\<lparr>loading := True\<rparr>
            in (st3\<lparr>requests := requests st3 @ [GenerateContentStream (prompt documents query)]\<rparr>,
                Some \<lparr>loadingAiMessageId = loadingId,
                      finalAiMessageId = toString (nowFinal clk) @ ''_ai_final'',
                      questionToSubmit = query,
                      turnContext = contextSnippets documents,
                      accumulatedAnswer = [],
                      attribution = None,
                      phase = Streaming\<rparr>)))"

text \<open>
  One whole turn, run to the point where the completion callback waits for attribution
  (\<open>streamTurn\<close>), and to its end (\<open>completeTurn\<close>).
\<close>

definition streamTurn ::
  "parser \<Rightarrow> bool \<Rightarrow> (string \<Rightarrow> transport) \<Rightarrow> streamResponse \<Rightarrow> clock \<Rightarrow> Document list
     \<Rightarrow> string option \<Rightarrow> agent \<Rightarrow> agent \<times> turn option" where
  "streamTurn parse ai generateContent responseStream clk documents message st =
     (case handleSendMessage ai clk documents message st of
        (st', None) \<Rightarrow> (st', None)
      | (st', Some t) \<Rightarrow>
          (case generateTextStream ai responseStream onChunk onError
                  (onComplete parse ai generateContent) (t, st') of
             (t', st'') \<Rightarrow> (st'', Some (t'\<lparr>phase := Attributing\<rparr>))))"

definition completeTurn ::
  "parser \<Rightarrow> bool \<Rightarrow> (string \<Rightarrow> transport) \<Rightarrow> streamResponse \<Rightarrow> clock \<Rightarrow> Document list
     \<Rightarrow> string option \<Rightarrow> agent \<Rightarrow> agent \<times> turn option" where
  "completeTurn parse ai generateContent responseStream clk documents message st =
     (case streamTurn parse ai generateContent responseStream clk documents message st of
        (st', None) \<Rightarrow> (st', None)
      | (st', Some t) \<Rightarrow>
          (case onCompleteResume (t, st') of
             (t', st'') \<Rightarrow> (st'', Some (t'\<lparr>phase := Done\<rparr>))))"

subsection \<open>Several turns, event by event\<close>

text \<open>
  Nothing in \<open>handleSendMessage\<close> refuses a submission while another one is streaming, and
  the chunks of two streams may interleave. The events are what the host delivers: a
  submission, a chunk of the stream of turn \<open>i\<close>, the failure or the end of that stream, and
  the resolution of the attribution promise of turn \<open>i\<close>. \<open>step\<close> runs the callbacks as
  \<open>generateTextStream\<close> does: on a failure \<open>onError\<close> and then \<open>onComplete\<close>, on the end
  \<open>onComplete\<close>.
\<close>

datatype event =
    Submit "string option" clock "Document list"
  | Chunk nat string
  | Fail nat string
  | End nat
  | Resume nat

definition inPhase :: "phase \<Rightarrow> nat \<Rightarrow> turn list \<Rightarrow> bool" where
  "inPhase p i ts = (i < length ts \<and> phase (ts ! i) = p)"

definition withTurn ::
  "nat \<Rightarrow> phase \<Rightarrow> (turn \<times> agent \<Rightarrow> turn \<times> agent) \<Rightarrow> agent \<times> turn list \<Rightarrow> agent \<times> turn list" where
  "withTurn i p f = (\<lambda>(st, ts).
     (case f (ts ! i, st) of (t', st') \<Rightarrow> (st', ts[i := t'\<lparr>phase := p\<rparr>])))"

fun step ::
  "parser \<Rightarrow> bool \<Rightarrow> (string \<Rightarrow> transport) \<Rightarrow> event \<Rightarrow> agent \<times> turn list \<Rightarrow> agent \<times> turn list" where
  "step parse ai svc (Submit message clk documents) (st, ts) =
     (case handleSendMessage ai clk documents message st of
        (st', None) \<Rightarrow> (st', ts)
      | (st', Some t) \<Rightarrow> (st', ts @ [t]))"
| "step parse ai svc (Chunk i c) (st, ts) =
     (if inPhase Streaming i ts then withTurn i Streaming (onChunk c) (st, ts) else (st, ts))"
| "step parse ai svc (Fail i e) (st, ts) =
     (if inPhase Streaming i ts
      then withTurn i Attributing (onComplete parse ai svc \<circ> onError e) (st, ts)
      else (st, ts))"
| "step parse ai svc (End i) (st, ts) =
     (if inPhase Streaming i ts
      then withTurn i Attributing (onComplete parse ai svc) (st, ts)
      else (st, ts))"
| "step parse ai svc (Resume i) (st, ts) =
     (if inPhase Attributing i ts then withTurn i Done onCompleteResume (st, ts) else (st, ts))"

definition run ::
  "parser \<Rightarrow> bool \<Rightarrow> (string \<Rightarrow> transport) \<Rightarrow> event list \<Rightarrow> agent \<times> turn list" where
  "run parse ai svc evs = fold (step parse ai svc) evs (initialAgent, [])"

section \<open>Example inputs\<close>

definition policyDoc :: Document where
  "policyDoc = \<lparr>doc_id = ''1'', name = ''policy.pdf'', type = ''PDF'', tags = [],
                 contentSnippet = ''Remote work rules'',
                 fullContent = Some ''Full policy text...'', sourceUrl = None,
                 isFavorite = False\<rparr>"





definition exampleClock :: clock where
  "exampleClock = \<lparr>nowUser = 1700000000000, dateUser = 1700000000000,
                    nowLoading = 1700000000001, dateLoading = 1700000000001,
                    nowFinal = 1700000000002\<rparr>"

definition exampleQuestion :: string where
  "exampleQuestion = ''What is the remote work policy?''"

definition exampleChunks :: "string list" where
  "exampleChunks = [''Per '', ''policy.pdf, '', ''remote work is allowed 3 days/week.'']"

definition exampleAnswer :: string where
  "exampleAnswer = ''Per policy.pdf, remote work is allowed 3 days/week.''"

text \<open>
  The platform's parser on the example texts that \<open>JSON_parse\<close> leaves to it: it rejects
  them. The message is the engine's own; a fixed text stands for it here.
\<close>

definition examplePlatform :: parser where
  "examplePlatform s = Inl ''Unexpected token in JSON''"

definition exampleParse :: parser where
  "exampleParse = JSON_parse examplePlatform"

definition malformedService :: "string \<Rightarrow> transport" where
  "malformedService p = Responded ''not json''"

definition exampleService :: "string \<Rightarrow> transport" where
  "exampleService p = Responded ''[\"policy.pdf\"]''"

definition exampleEvents :: "event list" where
  "exampleEvents =
     [Submit (Some exampleQuestion) exampleClock [policyDoc],
      Chunk 0 ''Per '', Chunk 0 ''policy.pdf, '',
      Chunk 0 ''remote work is allowed 3 days/week.'',
      End 0, Resume 0]"

text \<open>The invariant of the transcript: only an entry that is no longer loading has sources.\<close>

definition sourcesOnlyWhenFinal :: "ChatMessage list \<Rightarrow> bool" where
  "sourcesOnlyWhenFinal h = (\<forall>m \<in> set h. sources m \<noteq> None \<longrightarrow> isLoading m = Some False)"

section \<open>The streaming completion calls back in order\<close>

lemma fold_trace: "fold (\<lambda>c tr. tr @ [OnChunk c]) cs tr = tr @ map OnChunk cs"
  by (induction cs arbitrary: tr) simp_all

lemma callbackTrace_eq:
  "callbackTrace ai rs =
     (if \<not> ai then [OnError ''AI service is unavailable (API key missing).'', OnComplete]
      else map OnChunk (chunks rs)
           @ (case failure rs of Some e \<Rightarrow> [OnError e] | None \<Rightarrow> [])
           @ [OnComplete])"
  by (simp add: callbackTrace_def generateTextStream_def fold_trace split: option.split)

lemma fold_replay_chunks:
  "fold (replay f g h) (map OnChunk cs) s = fold f cs s"
  by (induction cs arbitrary: s) simp_all

lemma generateTextStream_replay:
  "generateTextStream ai rs f g h s = fold (replay f g h) (callbackTrace ai rs) s"
  by (simp add: callbackTrace_eq generateTextStream_def fold_replay_chunks split: option.split)

text \<open>
  C3. Every run of \<open>generateTextStream\<close> calls \<open>onComplete\<close> exactly once, as its last call,
  on success and on failure. If the transport fails, \<open>onError\<close> is called once, after the
  chunks that arrived, and no \<open>onChunk\<close> follows it. With no client the run is \<open>onError\<close> and
  then \<open>onComplete\<close>, without touching the transport. The trace determines what any
  callbacks do to the caller's state.
\<close>

theorem generateTextStream_callback_order:
  "length (filter (\<lambda>c. c = OnComplete) (callbackTrace ai rs)) = 1
   \<and> last (callbackTrace ai rs) = OnComplete
   \<and> OnComplete \<notin> set (butlast (callbackTrace ai rs))
   \<and> (ai \<and> failure rs = Some e \<longrightarrow>
        callbackTrace ai rs = map OnChunk (chunks rs) @ [OnError e, OnComplete])
   \<and> (ai \<and> failure rs = None \<longrightarrow>
        callbackTrace ai rs = map OnChunk (chunks rs) @ [OnComplete])
   \<and> (\<not> ai \<longrightarrow>
        callbackTrace ai rs =
          [OnError ''AI service is unavailable (API key missing).'', OnComplete])
   \<and> generateTextStream ai rs f g h s = fold (replay f g h) (callbackTrace ai rs) s"
proof -
  have count: "filter (\<lambda>c. c = OnComplete) (map OnChunk cs) = []" for cs
    by (induction cs) simp_all
  have notin: "OnComplete \<notin> set (map OnChunk cs)" for cs
    by auto
  show ?thesis
    using count [of "chunks rs"] notin [of "chunks rs"]
    by (auto simp: callbackTrace_eq generateTextStream_replay butlast_append
             split: option.split)
qed

theorem generateTextStream_callback_order_witness:
  "(True \<and> failure (StreamResponse [''Per '', ''policy.pdf''] (Some ''reset'')) = Some ''reset'')
   \<and> callbackTrace True (StreamResponse [''Per '', ''policy.pdf''] (Some ''reset'')) =
     [OnChunk ''Per '', OnChunk ''policy.pdf'', OnError ''reset'', OnComplete]"
  using generateTextStream_callback_order
          [of True "StreamResponse [''Per '', ''policy.pdf''] (Some ''reset'')" "''reset''"
              "\<lambda>c s. s" "\<lambda>e s. s" "\<lambda>s. s" "()"]
  by simp


section \<open>The context of a query\<close>














section \<open>The structured completion\<close>

subsection \<open>What the fence expression matches\<close>

lemma isSpace_not_isWord: "isSpace c \<Longrightarrow> \<not> isWord c"
  by (auto simp: isSpace_def isWord_def Let_def)

lemma backtick_class [simp]: "\<not> isSpace (CHR 0x60)" "\<not> isWord (CHR 0x60)"
  by (simp_all add: isSpace_def isWord_def)

lemma NL_isSpace [simp]: "isSpace NL"
  by (simp add: isSpace_def NL_def)

lemma fence_Cons: "fence = CHR 0x60 # ''``''"
  by (simp add: fence_def)

lemma fence_ne_Nil [simp]: "fence \<noteq> []" "[] \<noteq> fence"
  by (simp_all add: fence_def)

lemma lit_fence_eos: "lit fence (eos g) s = (if s = fence then Some g else None)"
proof (cases "s = fence")
  case True
  then show ?thesis by (simp add: lit_def eos_def fence_def)
next
  case False
  have "take 3 s @ drop 3 s = s" by simp
  with False have "\<not> (take 3 s = fence \<and> drop 3 s = [])"
    by (metis append_Nil2)
  with False show ?thesis
    by (auto simp: lit_def eos_def fence_def numeral_3_eq_3)
qed

lemma greedy_space_fence:
  "greedyStar isSpace (lit fence (eos g)) s = (if dropWhile isSpace s = fence then Some g else None)"
proof (induction s)
  case Nil
  then show ?case by (simp add: lit_fence_eos)
next
  case (Cons c cs)
  show ?case
  proof (cases "isSpace c")
    case True
    then have "c # cs \<noteq> fence"
      by (auto simp: fence_Cons)
    with True Cons show ?thesis
      by (simp add: lit_fence_eos)
  next
    case False
    then show ?thesis by (simp add: lit_fence_eos)
  qed
qed

lemma closing_eq:
  "optChar NL (greedyStar isSpace (lit fence (eos g))) s =
     (if dropWhile isSpace s = fence then Some g else None)"
  by (cases s) (auto simp: greedy_space_fence simp del: greedyStar.simps)

lemma lazyAny_hit: "k g s = Some v \<Longrightarrow> lazyAny k g s = Some v"
  by (cases s) simp_all

lemma lazyAny_first:
  assumes "k (g @ p) r = Some v"
    and "\<And>p1 p2. p = p1 @ p2 \<Longrightarrow> p2 \<noteq> [] \<Longrightarrow> k (g @ p1) (p2 @ r) = None"
  shows "lazyAny k g (p @ r) = Some v"
  using assms
proof (induction p arbitrary: g)
  case Nil
  then show ?case by (simp add: lazyAny_hit)
next
  case (Cons a p)
  have miss: "k g (a # p @ r) = None"
    using Cons.prems(2) [of "[]" "a # p"] by simp
  have "lazyAny k (g @ [a]) (p @ r) = Some v"
  proof (rule Cons.IH)
    show "k ((g @ [a]) @ p) r = Some v"
      using Cons.prems(1) by simp
  next
    fix p1 p2 assume "p = p1 @ p2" "p2 \<noteq> []"
    then show "k ((g @ [a]) @ p1) (p2 @ r) = None"
      using Cons.prems(2) [of "a # p1" p2] by simp
  qed
  with miss show ?case by simp
qed

lemma greedyStar_all:
  assumes "\<forall>c \<in> set w. P c" and "r = [] \<or> \<not> P (hd r)" and "k r = Some v"
  shows "greedyStar P k (w @ r) = Some v"
  using assms
proof (induction w)
  case Nil
  then show ?case by (cases r) auto
next
  case (Cons a w)
  then show ?case by simp
qed

lemma optChar_skip: "s = [] \<or> hd s \<noteq> x \<Longrightarrow> optChar x k s = k s"
  by (cases s) auto

lemma dropWhile_space_suffix:
  assumes "p2 \<noteq> []" and "\<not> isSpace (last p2)"
  shows "length (dropWhile isSpace (p2 @ r)) > length r"
proof -
  have "last p2 \<in> set p2" using assms(1) by simp
  then have "dropWhile isSpace (p2 @ r) = dropWhile isSpace p2 @ r"
    using assms(2) by (intro dropWhile_append1) auto
  moreover have "dropWhile isSpace p2 \<noteq> []"
    using assms \<open>last p2 \<in> set p2\<close> by (auto simp: dropWhile_eq_Nil_conv)
  ultimately show ?thesis by (cases "dropWhile isSpace p2") simp_all
qed

lemma fenceRegex_fenced:
  assumes tag: "\<forall>c \<in> set tag. isWord c"
    and ws1: "\<forall>c \<in> set ws1. isSpace c"
    and ws2: "\<forall>c \<in> set ws2. isSpace c"
    and p: "if p = [] then ws2 = [] else \<not> isSpace (hd p) \<and> \<not> isSpace (last p)"
    and sep: "ws1 \<noteq> [] \<or> p = [] \<or> \<not> isWord (hd p)"
  shows "fenceRegex (fence @ tag @ ws1 @ p @ ws2 @ fence) = Some p"
proof -
  let ?K = "\<lambda>g. optChar NL (greedyStar isSpace (lit fence (eos g)))"
  have K: "?K g s = (if dropWhile isSpace s = fence then Some g else None)"
    for g :: string and s
    by (rule closing_eq)
  have tail: "dropWhile isSpace (ws2 @ fence) = fence"
    using ws2 by (simp add: dropWhile_append2 fence_Cons)
  have lazy: "lazyAny ?K [] (p @ (ws2 @ fence)) = Some p"
  proof (rule lazyAny_first)
    show "?K ([] @ p) (ws2 @ fence) = Some p"
      by (simp add: K tail)
  next
    fix p1 p2 assume split: "p = p1 @ p2" "p2 \<noteq> []"
    with p have "\<not> isSpace (last p2)" by (auto split: if_splits)
    then have "length (dropWhile isSpace (p2 @ (ws2 @ fence))) > length (ws2 @ fence)"
      using split(2) by (rule dropWhile_space_suffix [rotated])
    then have "dropWhile isSpace (p2 @ ws2 @ fence) \<noteq> fence"
      by (auto simp: fence_def)
    then show "?K ([] @ p1) (p2 @ ws2 @ fence) = None"
      by (simp add: K)
  qed
  have hd3: "hd (p @ ws2 @ fence) \<noteq> NL \<and> \<not> isSpace (hd (p @ ws2 @ fence))"
  proof (cases p)
    case Nil
    with p show ?thesis
      by (auto simp: fence_Cons NL_def)
  next
    case (Cons a p')
    with p show ?thesis by auto
  qed
  have k3: "optChar NL (lazyAny ?K []) (p @ ws2 @ fence) = Some p"
    using lazy hd3 by (simp add: optChar_skip)
  have k2: "greedyStar isSpace (optChar NL (lazyAny ?K [])) (ws1 @ (p @ ws2 @ fence)) = Some p"
    by (rule greedyStar_all [where P = isSpace and w = ws1 and r = "p @ ws2 @ fence"])
       (use ws1 hd3 k3 in auto)
  have hd1: "\<not> isWord (hd (ws1 @ p @ ws2 @ fence))"
  proof (cases ws1)
    case Nil
    show ?thesis
    proof (cases p)
      case Nil
      with \<open>ws1 = []\<close> p show ?thesis
        by (auto simp: fence_Cons)
    next
      case (Cons a p')
      with \<open>ws1 = []\<close> sep show ?thesis by auto
    qed
  next
    case (Cons a w)
    with ws1 show ?thesis by (auto simp: isSpace_not_isWord)
  qed
  have k1: "greedyStar isWord (greedyStar isSpace (optChar NL (lazyAny ?K [])))
              (tag @ (ws1 @ p @ ws2 @ fence)) = Some p"
    by (rule greedyStar_all [where P = isWord and w = tag and r = "ws1 @ p @ ws2 @ fence"])
       (use tag hd1 k2 in auto)
  then show ?thesis
    by (simp add: fenceRegex_def lit_def)
qed

lemma fenceRegex_no_fence: "take 3 s \<noteq> fence \<Longrightarrow> fenceRegex s = None"
  by (simp add: fenceRegex_def lit_def fence_def numeral_3_eq_3)


lemma dropWhile_hd: "s \<noteq> [] \<Longrightarrow> \<not> P (hd s) \<Longrightarrow> dropWhile P s = s"
  by (cases s) simp_all

lemma trim_pad:
  assumes "\<forall>c \<in> set l. isSpace c" and "\<forall>c \<in> set r. isSpace c"
    and "m \<noteq> []" and "\<not> isSpace (hd m)" and "\<not> isSpace (last m)"
  shows "trim (l @ m @ r) = m"
proof -
  have "dropWhile isSpace (l @ m @ r) = dropWhile isSpace (m @ r)"
    using assms(1) by (simp add: dropWhile_append2)
  also have "\<dots> = m @ r"
    using assms(3,4) by (intro dropWhile_hd) simp_all
  finally have front: "dropWhile isSpace (l @ m @ r) = m @ r" .
  have "dropWhile isSpace (rev r @ rev m) = dropWhile isSpace (rev m)"
    by (rule dropWhile_append2) (use assms(2) in auto)
  also have "\<dots> = rev m"
    using assms(3,5) by (intro dropWhile_hd) (simp_all add: hd_rev)
  finally have rear: "dropWhile isSpace (rev r @ rev m) = rev m" .
  show ?thesis
    by (simp add: trim_def front rear)
qed

lemma trim_trimmed:
  "m \<noteq> [] \<Longrightarrow> \<not> isSpace (hd m) \<Longrightarrow> \<not> isSpace (last m) \<Longrightarrow> trim m = m"
  using trim_pad [of "[]" "[]" m] by simp

lemma trim_blank: "\<forall>c \<in> set s. isSpace c \<Longrightarrow> trim s = []"
  by (auto simp: trim_def dest: set_dropWhileD)

lemma stripFence_fenced:
  assumes l: "\<forall>c \<in> set l. isSpace c" and r: "\<forall>c \<in> set r. isSpace c"
    and tag: "\<forall>c \<in> set tag. isWord c"
    and ws1: "\<forall>c \<in> set ws1. isSpace c" and ws2: "\<forall>c \<in> set ws2. isSpace c"
    and p: "p \<noteq> []" "\<not> isSpace (hd p)" "\<not> isSpace (last p)"
    and sep: "ws1 \<noteq> [] \<or> \<not> isWord (hd p)"
  shows "stripFence (l @ fence @ tag @ ws1 @ p @ ws2 @ fence @ r) = p"
proof -
  let ?m = "fence @ tag @ ws1 @ p @ ws2 @ fence"
  have "trim (l @ ?m @ r) = ?m"
    by (rule trim_pad [OF l r]) (simp_all add: fence_def)
  moreover have "fenceRegex ?m = Some p"
    using tag ws1 ws2 p sep by (intro fenceRegex_fenced) auto
  ultimately show ?thesis
    using p by (simp add: stripFence_def trim_trimmed)
qed

lemma stripFence_empty_fence:
  assumes l: "\<forall>c \<in> set l. isSpace c" and r: "\<forall>c \<in> set r. isSpace c"
    and tag: "\<forall>c \<in> set tag. isWord c" and ws: "\<forall>c \<in> set ws. isSpace c"
  shows "stripFence (l @ fence @ tag @ ws @ fence @ r) = fence @ tag @ ws @ fence"
proof -
  let ?m = "fence @ tag @ ws @ fence"
  have "trim (l @ ?m @ r) = ?m"
    by (rule trim_pad [OF l r]) (simp_all add: fence_def)
  moreover have "fenceRegex (fence @ tag @ ws @ [] @ [] @ fence) = Some []"
    using tag ws by (intro fenceRegex_fenced) auto
  ultimately show ?thesis
    by (simp add: stripFence_def)
qed

lemma stripFence_plain: "take 3 (trim txt) \<noteq> fence \<Longrightarrow> stripFence txt = trim txt"
  by (simp add: stripFence_def fenceRegex_no_fence)

subsection \<open>The contract of generateJson\<close>

lemma generateJson_responded:
  "svc pr = Responded txt \<Longrightarrow>
   generateJson parse True svc pr =
     ([GenerateContentJson pr],
      if stripFence txt = [] then
        Inl (wrapError \<lparr>errMessage = ''Received empty JSON string from AI.'',
                        errResponseText = None\<rparr>)
      else (case parse (stripFence txt) of
              Inl m \<Rightarrow> Inl (wrapError \<lparr>errMessage = m, errResponseText = None\<rparr>)
            | Inr v \<Rightarrow> Inr v))"
  by (simp add: generateJson_def Let_def)

lemma example_fenced: "stripFence ''```json\<newline>[\"a\",\"b\"]\<newline>```'' = ''[\"a\",\"b\"]''"
  by code_simp

lemma example_plain: "stripFence ''[]'' = ''[]''"
  by code_simp

lemma example_parse_ab:
  "JSON_parse platform ''[\"a\",\"b\"]'' = Inr (JArray [JString ''a'', JString ''b''])"
proof -
  have pv: "parseValue (Suc (length ''[\"a\",\"b\"]'')) ''[\"a\",\"b\"]'' =
          Some (JArray [JString ''a'', JString ''b''], [])"
    by code_simp
  show ?thesis
    unfolding JSON_parse_def pv by simp
qed

lemma example_parse_empty: "JSON_parse platform ''[]'' = Inr (JArray [])"
proof -
  have pv: "parseValue (Suc (length ''[]'')) ''[]'' = Some (JArray [], [])"
    by code_simp
  show ?thesis
    unfolding JSON_parse_def pv by simp
qed

lemma example_parse_malformed: "exampleParse ''not json'' = Inl ''Unexpected token in JSON''"
proof -
  have pv: "parseValue (Suc (length ''not json'')) ''not json'' = None"
    by code_simp
  show ?thesis
    unfolding exampleParse_def JSON_parse_def pv by (simp add: examplePlatform_def)
qed

lemma example_parse_hollow:
  "exampleParse ''```json\<newline>```'' = Inl ''Unexpected token in JSON''"
proof -
  have pv: "parseValue (Suc (length ''```json\<newline>```'')) ''```json\<newline>```'' = None"
    by code_simp
  show ?thesis
    unfolding exampleParse_def JSON_parse_def pv by (simp add: examplePlatform_def)
qed

lemma example_strip_malformed: "stripFence ''not json'' = ''not json''"
  by code_simp

text \<open>
  A response that is not JSON: the text \<open>not json\<close> was received, and the error that is
  raised names \<open>N/A\<close> as the raw text.
\<close>

theorem generateJson_raw_text_counterexample:
  "generateJson exampleParse True malformedService ''q'' =
     ([GenerateContentJson ''q''],
      Inl ''Failed to generate or parse JSON from AI. AI response might not be valid JSON. Raw text (if available): N/A. Original error: Unexpected token in JSON'')"
proof -
  have "malformedService ''q'' = Responded ''not json''"
    by (simp add: malformedService_def)
  then show ?thesis
    by (simp add: generateJson_responded example_strip_malformed example_parse_malformed
          wrapError_def)
qed

text \<open>
  C6, amended. \<open>generateJson\<close> returns \<open>null\<close> and sends nothing when there is no client.
  Otherwise it sends one request and trims the text of the response. A fence that covers the
  whole trimmed text (three backticks, a tag of word characters, white space, a payload,
  white space, three backticks) is stripped and the payload alone is parsed; a text that
  does not start with a fence is parsed as it is. The tag takes every word character after
  the opening backticks, so a payload that starts with a word character has to be set off
  from the tag by white space, as the line break after the tag does. The fenced text
  \<open>["a","b"]\<close> with the tag \<open>json\<close> parses to the array of \<open>a\<close> and \<open>b\<close>, the text \<open>[]\<close> to the
  empty array. A fence around nothing is not stripped: the whole text goes to the parser.
  An empty text, a text the parser rejects and a failure of the transport all raise the
  wrapped error, which carries the message of the cause. Its raw text is the response text
  that the caught error itself exposes, as an error of the transport may; for an empty
  payload and for a text the parser rejects it is \<open>N/A\<close>, although a text was received.
\<close>

theorem generateJson_contract:
  "generateJson parse False svc pr = ([], Inr JNull)
   \<and> (svc pr = Threw e \<longrightarrow>
        generateJson parse True svc pr = ([GenerateContentJson pr], Inl (wrapError e)))
   \<and> (svc pr = Responded (l @ fence @ tag @ gap @ payload @ rear @ fence @ r)
        \<and> (\<forall>c \<in> set l. isSpace c) \<and> (\<forall>c \<in> set r. isSpace c)
        \<and> (\<forall>c \<in> set tag. isWord c)
        \<and> (\<forall>c \<in> set gap. isSpace c) \<and> (\<forall>c \<in> set rear. isSpace c)
        \<and> payload \<noteq> [] \<and> \<not> isSpace (hd payload) \<and> \<not> isSpace (last payload)
        \<and> (gap \<noteq> [] \<or> \<not> isWord (hd payload)) \<longrightarrow>
        generateJson parse True svc pr =
          ([GenerateContentJson pr],
           case parse payload of
             Inl m \<Rightarrow> Inl (wrapError \<lparr>errMessage = m, errResponseText = None\<rparr>)
           | Inr v \<Rightarrow> Inr v))
   \<and> (svc pr = Responded reply \<and> take 3 (trim reply) \<noteq> fence \<and> trim reply \<noteq> [] \<longrightarrow>
        generateJson parse True svc pr =
          ([GenerateContentJson pr],
           case parse (trim reply) of
             Inl m \<Rightarrow> Inl (wrapError \<lparr>errMessage = m, errResponseText = None\<rparr>)
           | Inr v \<Rightarrow> Inr v))
   \<and> (svc pr = Responded reply \<and> trim reply = [] \<longrightarrow>
        generateJson parse True svc pr =
          ([GenerateContentJson pr],
           Inl (wrapError \<lparr>errMessage = ''Received empty JSON string from AI.'',
                           errResponseText = None\<rparr>)))
   \<and> (svc pr = Responded (l @ fence @ tag @ gap @ fence @ r)
        \<and> (\<forall>c \<in> set l. isSpace c) \<and> (\<forall>c \<in> set r. isSpace c)
        \<and> (\<forall>c \<in> set tag. isWord c) \<and> (\<forall>c \<in> set gap. isSpace c) \<longrightarrow>
        generateJson parse True svc pr =
          ([GenerateContentJson pr],
           case parse (fence @ tag @ gap @ fence) of
             Inl m \<Rightarrow> Inl (wrapError \<lparr>errMessage = m, errResponseText = None\<rparr>)
           | Inr v \<Rightarrow> Inr v))
   \<and> (svc pr = Responded ''```json\<newline>[\"a\",\"b\"]\<newline>```'' \<longrightarrow>
        generateJson (JSON_parse platform) True svc pr =
          ([GenerateContentJson pr], Inr (JArray [JString ''a'', JString ''b''])))
   \<and> (svc pr = Responded ''[]'' \<longrightarrow>
        generateJson (JSON_parse platform) True svc pr = ([GenerateContentJson pr], Inr (JArray [])))
   \<and> (svc pr = Responded [] \<longrightarrow>
        generateJson parse True svc pr =
          ([GenerateContentJson pr],
           Inl (wrapError \<lparr>errMessage = ''Received empty JSON string from AI.'',
                           errResponseText = None\<rparr>)))
   \<and> wrapError e =
       ''Failed to generate or parse JSON from AI. AI response might not be valid JSON. Raw text (if available): ''
       @ (case errResponseText e of
            Some t \<Rightarrow> if t \<noteq> [] then t else ''N/A''
          | None \<Rightarrow> ''N/A'')
       @ ''. Original error: '' @ errMessage e
   \<and> wrapError \<lparr>errMessage = m, errResponseText = None\<rparr> =
       ''Failed to generate or parse JSON from AI. AI response might not be valid JSON. Raw text (if available): N/A. Original error: ''
       @ m"
proof -
  have unavailable: "generateJson parse False svc pr = ([], Inr JNull)"
    by (simp add: generateJson_def)
  have threw: "svc pr = Threw e \<longrightarrow>
      generateJson parse True svc pr = ([GenerateContentJson pr], Inl (wrapError e))"
    by (simp add: generateJson_def)
  have fenced: "svc pr = Responded (l @ fence @ tag @ gap @ payload @ rear @ fence @ r)
        \<and> (\<forall>c \<in> set l. isSpace c) \<and> (\<forall>c \<in> set r. isSpace c)
        \<and> (\<forall>c \<in> set tag. isWord c)
        \<and> (\<forall>c \<in> set gap. isSpace c) \<and> (\<forall>c \<in> set rear. isSpace c)
        \<and> payload \<noteq> [] \<and> \<not> isSpace (hd payload) \<and> \<not> isSpace (last payload)
        \<and> (gap \<noteq> [] \<or> \<not> isWord (hd payload)) \<longrightarrow>
        generateJson parse True svc pr =
          ([GenerateContentJson pr],
           case parse payload of
             Inl m \<Rightarrow> Inl (wrapError \<lparr>errMessage = m, errResponseText = None\<rparr>)
           | Inr v \<Rightarrow> Inr v)"
  proof (intro impI, elim conjE)
    assume a: "svc pr = Responded (l @ fence @ tag @ gap @ payload @ rear @ fence @ r)"
      "\<forall>c \<in> set l. isSpace c" "\<forall>c \<in> set r. isSpace c" "\<forall>c \<in> set tag. isWord c"
      "\<forall>c \<in> set gap. isSpace c" "\<forall>c \<in> set rear. isSpace c"
      "payload \<noteq> []" "\<not> isSpace (hd payload)" "\<not> isSpace (last payload)"
      "gap \<noteq> [] \<or> \<not> isWord (hd payload)"
    have "stripFence (l @ fence @ tag @ gap @ payload @ rear @ fence @ r) = payload"
      using a(2-10) by (rule stripFence_fenced)
    with a(1,7) show "generateJson parse True svc pr =
          ([GenerateContentJson pr],
           case parse payload of
             Inl m \<Rightarrow> Inl (wrapError \<lparr>errMessage = m, errResponseText = None\<rparr>)
           | Inr v \<Rightarrow> Inr v)"
      by (simp add: generateJson_responded)
  qed
  have plain: "svc pr = Responded reply \<and> take 3 (trim reply) \<noteq> fence \<and> trim reply \<noteq> [] \<longrightarrow>
        generateJson parse True svc pr =
          ([GenerateContentJson pr],
           case parse (trim reply) of
             Inl m \<Rightarrow> Inl (wrapError \<lparr>errMessage = m, errResponseText = None\<rparr>)
           | Inr v \<Rightarrow> Inr v)"
    by (simp add: generateJson_responded stripFence_plain)
  have blank: "svc pr = Responded reply \<and> trim reply = [] \<longrightarrow>
        generateJson parse True svc pr =
          ([GenerateContentJson pr],
           Inl (wrapError \<lparr>errMessage = ''Received empty JSON string from AI.'',
                           errResponseText = None\<rparr>))"
    by (simp add: generateJson_responded stripFence_def fenceRegex_no_fence)
  have hollow: "svc pr = Responded (l @ fence @ tag @ gap @ fence @ r)
        \<and> (\<forall>c \<in> set l. isSpace c) \<and> (\<forall>c \<in> set r. isSpace c)
        \<and> (\<forall>c \<in> set tag. isWord c) \<and> (\<forall>c \<in> set gap. isSpace c) \<longrightarrow>
        generateJson parse True svc pr =
          ([GenerateContentJson pr],
           case parse (fence @ tag @ gap @ fence) of
             Inl m \<Rightarrow> Inl (wrapError \<lparr>errMessage = m, errResponseText = None\<rparr>)
           | Inr v \<Rightarrow> Inr v)"
  proof (intro impI, elim conjE)
    assume a: "svc pr = Responded (l @ fence @ tag @ gap @ fence @ r)"
      "\<forall>c \<in> set l. isSpace c" "\<forall>c \<in> set r. isSpace c" "\<forall>c \<in> set tag. isWord c"
      "\<forall>c \<in> set gap. isSpace c"
    have "stripFence (l @ fence @ tag @ gap @ fence @ r) = fence @ tag @ gap @ fence"
      using a(2-5) by (rule stripFence_empty_fence)
    with a(1) show "generateJson parse True svc pr =
          ([GenerateContentJson pr],
           case parse (fence @ tag @ gap @ fence) of
             Inl m \<Rightarrow> Inl (wrapError \<lparr>errMessage = m, errResponseText = None\<rparr>)
           | Inr v \<Rightarrow> Inr v)"
      by (simp add: generateJson_responded)
  qed
  have ex1: "svc pr = Responded ''```json\<newline>[\"a\",\"b\"]\<newline>```'' \<longrightarrow>
        generateJson (JSON_parse platform) True svc pr =
          ([GenerateContentJson pr], Inr (JArray [JString ''a'', JString ''b'']))"
    by (simp add: generateJson_responded example_fenced example_parse_ab)
  have ex2: "svc pr = Responded ''[]'' \<longrightarrow>
        generateJson (JSON_parse platform) True svc pr = ([GenerateContentJson pr], Inr (JArray []))"
    by (simp add: generateJson_responded example_plain example_parse_empty)
  have ex3: "svc pr = Responded [] \<longrightarrow>
        generateJson parse True svc pr =
          ([GenerateContentJson pr],
           Inl (wrapError \<lparr>errMessage = ''Received empty JSON string from AI.'',
                           errResponseText = None\<rparr>))"
    by (simp add: generateJson_responded stripFence_def trim_def fenceRegex_no_fence)
  have wrap: "wrapError e =
       ''Failed to generate or parse JSON from AI. AI response might not be valid JSON. Raw text (if available): ''
       @ (case errResponseText e of
            Some t \<Rightarrow> if t \<noteq> [] then t else ''N/A''
          | None \<Rightarrow> ''N/A'')
       @ ''. Original error: '' @ errMessage e"
    by (simp add: wrapError_def)
  have bare: "wrapError \<lparr>errMessage = m, errResponseText = None\<rparr> =
       ''Failed to generate or parse JSON from AI. AI response might not be valid JSON. Raw text (if available): N/A. Original error: ''
       @ m"
    by (simp add: wrapError_def)
  show ?thesis
    using unavailable threw fenced plain blank hollow ex1 ex2 ex3 wrap bare
    by (intro conjI)
qed


theorem generateJson_contract_witness:
  "generateJson exampleParse True (\<lambda>p. Responded ''  ```json\<newline>[\"a\",\"b\"]\<newline>```  '') ''q'' =
     ([GenerateContentJson ''q''], Inr (JArray [JString ''a'', JString ''b'']))
   \<and> generateJson exampleParse True
        (\<lambda>p. Threw \<lparr>errMessage = ''503'', errResponseText = Some ''busy''\<rparr>) ''q'' =
     ([GenerateContentJson ''q''],
      Inl ''Failed to generate or parse JSON from AI. AI response might not be valid JSON. Raw text (if available): busy. Original error: 503'')
   \<and> generateJson exampleParse True (\<lambda>p. Responded '' not json '') ''q'' =
     ([GenerateContentJson ''q''],
      Inl ''Failed to generate or parse JSON from AI. AI response might not be valid JSON. Raw text (if available): N/A. Original error: Unexpected token in JSON'')
   \<and> generateJson exampleParse True (\<lambda>p. Responded ''```json\<newline>```'') ''q'' =
     ([GenerateContentJson ''q''],
      Inl ''Failed to generate or parse JSON from AI. AI response might not be valid JSON. Raw text (if available): N/A. Original error: Unexpected token in JSON'')
   \<and> generateJson exampleParse True (\<lambda>p. Responded '' '') ''q'' =
     ([GenerateContentJson ''q''],
      Inl ''Failed to generate or parse JSON from AI. AI response might not be valid JSON. Raw text (if available): N/A. Original error: Received empty JSON string from AI.'')"
proof -
  have a: "generateJson exampleParse True
             (\<lambda>p. Responded ''  ```json\<newline>[\"a\",\"b\"]\<newline>```  '') ''q'' =
           ([GenerateContentJson ''q''], Inr (JArray [JString ''a'', JString ''b'']))"
    using generateJson_contract
            [where parse = exampleParse and pr = "''q''"
               and svc = "\<lambda>p. Responded ''  ```json\<newline>[\"a\",\"b\"]\<newline>```  ''"
               and l = "''  ''" and tag = "''json''" and gap = "[NL]"
               and payload = "''[\"a\",\"b\"]''" and rear = "[NL]" and r = "''  ''"]
    by (simp add: fence_def NL_def isSpace_def isWord_def example_parse_ab exampleParse_def)
  have b: "generateJson exampleParse True
             (\<lambda>p. Threw \<lparr>errMessage = ''503'', errResponseText = Some ''busy''\<rparr>) ''q'' =
           ([GenerateContentJson ''q''],
            Inl ''Failed to generate or parse JSON from AI. AI response might not be valid JSON. Raw text (if available): busy. Original error: 503'')"
    using generateJson_contract
            [where parse = exampleParse and pr = "''q''"
               and svc = "\<lambda>p. Threw \<lparr>errMessage = ''503'', errResponseText = Some ''busy''\<rparr>"
               and e = "\<lparr>errMessage = ''503'', errResponseText = Some ''busy''\<rparr>"]
    by simp
  note parse_bad = example_parse_malformed
  have trim_bad: "trim '' not json '' = ''not json''"
    by code_simp
  have c: "generateJson exampleParse True (\<lambda>p. Responded '' not json '') ''q'' =
           ([GenerateContentJson ''q''],
            Inl ''Failed to generate or parse JSON from AI. AI response might not be valid JSON. Raw text (if available): N/A. Original error: Unexpected token in JSON'')"
    using generateJson_contract
            [where parse = exampleParse and pr = "''q''"
               and svc = "\<lambda>p. Responded '' not json ''" and reply = "'' not json ''"
               and m = "''Unexpected token in JSON''"]
    by (simp add: trim_bad parse_bad fence_def)
  have d: "generateJson exampleParse True (\<lambda>p. Responded ''```json\<newline>```'') ''q'' =
           ([GenerateContentJson ''q''],
            Inl ''Failed to generate or parse JSON from AI. AI response might not be valid JSON. Raw text (if available): N/A. Original error: Unexpected token in JSON'')"
    using generateJson_contract
            [where parse = exampleParse and pr = "''q''"
               and svc = "\<lambda>p. Responded ''```json\<newline>```''"
               and l = "[]" and tag = "''json''" and gap = "[NL]" and r = "[]"
               and m = "''Unexpected token in JSON''"]
    by (simp add: fence_def NL_def isSpace_def isWord_def example_parse_hollow)
  have trim_sp: "trim '' '' = []"
    by code_simp
  have e: "generateJson exampleParse True (\<lambda>p. Responded '' '') ''q'' =
           ([GenerateContentJson ''q''],
            Inl ''Failed to generate or parse JSON from AI. AI response might not be valid JSON. Raw text (if available): N/A. Original error: Received empty JSON string from AI.'')"
    using generateJson_contract
            [where parse = exampleParse and pr = "''q''"
               and svc = "\<lambda>p. Responded '' ''" and reply = "'' ''"
               and e = "\<lparr>errMessage = ''Received empty JSON string from AI.'',
                          errResponseText = None\<rparr>"]
    by (simp add: trim_sp)
  show ?thesis
    using a b c d e by (intro conjI)
qed

section \<open>The attribution resolver degrades to no attribution\<close>

lemma stringEntries_filter:
  "stringEntries vs = concat (map (\<lambda>v. case v of JString s \<Rightarrow> [s] | _ \<Rightarrow> []) vs)"
  by (induction vs rule: stringEntries.induct) simp_all

lemma fetchSourceAttribution_skip:
  "trim aiAnswer = [] \<or> \<not> ai \<Longrightarrow>
   fetchSourceAttribution parse ai svc userQuery ctx aiAnswer = ([], None)"
  by (auto simp: fetchSourceAttribution_def isAIServiceAvailable_def)

lemma fetchSourceAttribution_call:
  "trim aiAnswer \<noteq> [] \<Longrightarrow>
   fetchSourceAttribution parse True svc userQuery ctx aiAnswer =
     ([GenerateContentJson (attributionPrompt userQuery ctx aiAnswer)],
      case snd (generateJson parse True svc (attributionPrompt userQuery ctx aiAnswer)) of
        Inl err \<Rightarrow> None
      | Inr (JArray vs) \<Rightarrow> Some (stringEntries vs)
      | Inr v \<Rightarrow> None)"
  by (auto simp: fetchSourceAttribution_def isAIServiceAvailable_def generateJson_def Let_def
           split: transport.splits sum.splits json.splits)

lemma example_attribution_parse:
  "JSON_parse platform ''[\"doc1.pdf\", 42, null, \"report.docx\"]'' =
     Inr (JArray [JString ''doc1.pdf'', JNumber ''42'', JNull, JString ''report.docx''])"
proof -
  have pv: "parseValue (Suc (length ''[\"doc1.pdf\", 42, null, \"report.docx\"]''))
          ''[\"doc1.pdf\", 42, null, \"report.docx\"]'' =
        Some (JArray [JString ''doc1.pdf'', JNumber ''42'', JNull, JString ''report.docx''], [])"
    by code_simp
  show ?thesis
    unfolding JSON_parse_def pv by simp
qed

lemma example_attribution_strip:
  "stripFence ''[\"doc1.pdf\", 42, null, \"report.docx\"]'' = ''[\"doc1.pdf\", 42, null, \"report.docx\"]''"
  by code_simp

text \<open>
  C7. \<open>fetchSourceAttribution\<close> returns \<open>undefined\<close> and sends nothing when the answer is
  empty or white space, or when there is no client. Otherwise it sends exactly one
  structured-completion request, with the attribution prompt. If the result is an array it
  returns the entries that are strings, in order: \<open>["doc1.pdf", 42, null, "report.docx"]\<close>
  gives \<open>["doc1.pdf", "report.docx"]\<close>. If the result is not an array, or the call failed in
  the transport or in the parser, it returns \<open>undefined\<close>; no error leaves it.
\<close>

theorem fetchSourceAttribution_best_effort:
  "(trim aiAnswer = [] \<or> \<not> ai \<longrightarrow>
      fetchSourceAttribution parse ai svc userQuery ctx aiAnswer = ([], None))
   \<and> (trim aiAnswer \<noteq> [] \<longrightarrow>
        fst (fetchSourceAttribution parse True svc userQuery ctx aiAnswer) =
          [GenerateContentJson (attributionPrompt userQuery ctx aiAnswer)])
   \<and> (trim aiAnswer \<noteq> []
        \<and> snd (generateJson parse True svc (attributionPrompt userQuery ctx aiAnswer)) =
             Inr (JArray vs) \<longrightarrow>
        snd (fetchSourceAttribution parse True svc userQuery ctx aiAnswer) =
          Some (stringEntries vs))
   \<and> (trim aiAnswer \<noteq> []
        \<and> (\<forall>vs. snd (generateJson parse True svc (attributionPrompt userQuery ctx aiAnswer))
                   \<noteq> Inr (JArray vs)) \<longrightarrow>
        snd (fetchSourceAttribution parse True svc userQuery ctx aiAnswer) = None)
   \<and> (trim aiAnswer \<noteq> []
        \<and> snd (generateJson parse True svc (attributionPrompt userQuery ctx aiAnswer)) =
             Inl err \<longrightarrow>
        snd (fetchSourceAttribution parse True svc userQuery ctx aiAnswer) = None)
   \<and> stringEntries vs = concat (map (\<lambda>v. case v of JString s \<Rightarrow> [s] | _ \<Rightarrow> []) vs)
   \<and> (trim aiAnswer \<noteq> []
        \<and> svc (attributionPrompt userQuery ctx aiAnswer) =
             Responded ''[\"doc1.pdf\", 42, null, \"report.docx\"]'' \<longrightarrow>
        snd (fetchSourceAttribution (JSON_parse platform) True svc userQuery ctx aiAnswer) =
          Some [''doc1.pdf'', ''report.docx''])"
proof -
  have ex: "trim aiAnswer \<noteq> []
        \<and> svc (attributionPrompt userQuery ctx aiAnswer) =
             Responded ''[\"doc1.pdf\", 42, null, \"report.docx\"]'' \<longrightarrow>
        snd (fetchSourceAttribution (JSON_parse platform) True svc userQuery ctx aiAnswer) =
          Some [''doc1.pdf'', ''report.docx'']"
    by (simp add: fetchSourceAttribution_call generateJson_responded
          example_attribution_strip example_attribution_parse)
  have other: "trim aiAnswer \<noteq> []
        \<and> (\<forall>vs. snd (generateJson parse True svc (attributionPrompt userQuery ctx aiAnswer))
                   \<noteq> Inr (JArray vs)) \<longrightarrow>
        snd (fetchSourceAttribution parse True svc userQuery ctx aiAnswer) = None"
    by (auto simp: fetchSourceAttribution_call split: sum.splits json.splits)
  show ?thesis
    using ex other fetchSourceAttribution_skip [of aiAnswer ai parse svc userQuery ctx]
          stringEntries_filter [of vs]
    by (simp add: fetchSourceAttribution_call)
qed

theorem fetchSourceAttribution_best_effort_witness:
  "trim ''Per policy.pdf'' \<noteq> []
   \<and> fetchSourceAttribution exampleParse True
        (\<lambda>p. Responded ''[\"doc1.pdf\", 42, null, \"report.docx\"]'') ''q'' ''ctx'' ''Per policy.pdf'' =
      ([GenerateContentJson (attributionPrompt ''q'' ''ctx'' ''Per policy.pdf'')],
       Some [''doc1.pdf'', ''report.docx''])
   \<and> fetchSourceAttribution exampleParse True
        (\<lambda>p. Responded ''[\"doc1.pdf\", 42, null, \"report.docx\"]'') ''q'' ''ctx'' ''  '' = ([], None)"
proof -
  have t: "trim ''Per policy.pdf'' \<noteq> []"
    by code_simp
  have b: "trim ''  '' = []"
    by code_simp
  note th = fetchSourceAttribution_best_effort
              [where parse = exampleParse and platform = examplePlatform and ai = True
                 and userQuery = "''q''"
                 and ctx = "''ctx''"
                 and svc = "\<lambda>p. Responded ''[\"doc1.pdf\", 42, null, \"report.docx\"]''"]
  from th [where aiAnswer = "''Per policy.pdf''"] t
  have "fst (fetchSourceAttribution exampleParse True
          (\<lambda>p. Responded ''[\"doc1.pdf\", 42, null, \"report.docx\"]'') ''q'' ''ctx'' ''Per policy.pdf'') =
        [GenerateContentJson (attributionPrompt ''q'' ''ctx'' ''Per policy.pdf'')]"
    and "snd (fetchSourceAttribution exampleParse True
          (\<lambda>p. Responded ''[\"doc1.pdf\", 42, null, \"report.docx\"]'') ''q'' ''ctx'' ''Per policy.pdf'') =
        Some [''doc1.pdf'', ''report.docx'']"
    by (simp_all add: exampleParse_def)
  then have one: "fetchSourceAttribution exampleParse True
        (\<lambda>p. Responded ''[\"doc1.pdf\", 42, null, \"report.docx\"]'') ''q'' ''ctx'' ''Per policy.pdf'' =
      ([GenerateContentJson (attributionPrompt ''q'' ''ctx'' ''Per policy.pdf'')],
       Some [''doc1.pdf'', ''report.docx''])"
    by (simp add: prod_eq_iff)
  from th [where aiAnswer = "''  ''"] b
  have two: "fetchSourceAttribution exampleParse True
        (\<lambda>p. Responded ''[\"doc1.pdf\", 42, null, \"report.docx\"]'') ''q'' ''ctx'' ''  '' = ([], None)"
    by simp
  show ?thesis
    using t one two by (intro conjI)
qed

section \<open>One chat turn\<close>

lemma updateLoading_text_text:
  "updateLoading lid (\<lambda>m. m\<lparr>text := b\<rparr>) (updateLoading lid (\<lambda>m. m\<lparr>text := a\<rparr>) h) =
   updateLoading lid (\<lambda>m. m\<lparr>text := b\<rparr>) h"
  by (simp add: updateLoading_def)

lemma onChunk_apply:
  "onChunk c (t, st) =
     (t\<lparr>accumulatedAnswer := accumulatedAnswer t @ c\<rparr>,
      st\<lparr>chatHistory :=
           updateLoading (loadingAiMessageId t)
             (\<lambda>msg. msg\<lparr>text := accumulatedAnswer t @ c\<rparr>) (chatHistory st)\<rparr>)"
  by (simp add: onChunk_def Let_def)

lemma fold_onChunk:
  "fold onChunk cs (t, st) =
     (t\<lparr>accumulatedAnswer := accumulatedAnswer t @ concat cs\<rparr>,
      st\<lparr>chatHistory :=
           (if cs = [] then chatHistory st
            else updateLoading (loadingAiMessageId t)
                   (\<lambda>msg. msg\<lparr>text := accumulatedAnswer t @ concat cs\<rparr>) (chatHistory st))\<rparr>)"
proof (induction cs arbitrary: t st)
  case Nil
  then show ?case by simp
next
  case (Cons c cs)
  show ?case
    by (simp add: Cons.IH onChunk_apply updateLoading_text_text)
qed

lemma last_updateLoading:
  "h \<noteq> [] \<Longrightarrow> msg_id (last h) = lid \<Longrightarrow> isLoading (last h) = Some True \<Longrightarrow>
   last (updateLoading lid f h) = f (last h)"
  by (simp add: updateLoading_def last_map)

lemma last_updateLoading_done:
  "h \<noteq> [] \<Longrightarrow> isLoading (last h) \<noteq> Some True \<Longrightarrow> last (updateLoading lid f h) = last h"
  by (simp add: updateLoading_def last_map)

lemma handleSendMessage_accept:
  assumes "trim (query message (currentQuestion st)) \<noteq> []"
  shows "handleSendMessage True clk documents message st =
     (st\<lparr>chatHistory := chatHistory st @
            [\<lparr>msg_id = toString (nowUser clk) @ ''_user'', sender = User,
              text = query message (currentQuestion st), timestamp = dateUser clk,
              isLoading = None, sources = None\<rparr>,
             \<lparr>msg_id = toString (nowLoading clk) @ ''_ai_loading'', sender = AI, text = [],
              timestamp = dateLoading clk, isLoading = Some True, sources = None\<rparr>],
          currentQuestion := (if truthy message then currentQuestion st else []),
          loading := True,
          requests := requests st @
            [GenerateContentStream (prompt documents (query message (currentQuestion st)))]\<rparr>,
      Some \<lparr>loadingAiMessageId = toString (nowLoading clk) @ ''_ai_loading'',
            finalAiMessageId = toString (nowFinal clk) @ ''_ai_final'',
            questionToSubmit = query message (currentQuestion st),
            turnContext = contextSnippets documents,
            accumulatedAnswer = [],
            attribution = None,
            phase = Streaming\<rparr>)"
  using assms by (simp add: handleSendMessage_def isAIServiceAvailable_def Let_def)


lemma onError_apply:
  "onError e (t, st) =
     (t, st\<lparr>chatHistory :=
              updateLoading (loadingAiMessageId t)
                (\<lambda>msg. msg\<lparr>text := errorText, isLoading := Some False,
                            msg_id := finalAiMessageId t\<rparr>)
                (chatHistory st),
            loading := False\<rparr>)"
  by (simp add: onError_def)

lemma onComplete_apply:
  "onComplete parse ai svc (t, st) =
     (t\<lparr>attribution :=
          snd (fetchSourceAttribution parse ai svc
                 (questionToSubmit t) (turnContext t) (accumulatedAnswer t))\<rparr>,
      st\<lparr>requests := requests st @
          fst (fetchSourceAttribution parse ai svc
                 (questionToSubmit t) (turnContext t) (accumulatedAnswer t))\<rparr>)"
  by (simp add: onComplete_def split: prod.splits)

lemma onCompleteResume_apply:
  "onCompleteResume (t, st) =
     (t, st\<lparr>chatHistory :=
              updateLoading (loadingAiMessageId t)
                (\<lambda>msg. msg\<lparr>text := (if accumulatedAnswer t \<noteq> [] then accumulatedAnswer t
                                      else noResponse),
                            isLoading := Some False,
                            msg_id := finalAiMessageId t,
                            sources := attribution t\<rparr>)
                (chatHistory st),
            loading := False\<rparr>)"
  by (simp add: onCompleteResume_def)

lemma streamTurn_success:
  assumes "trim (query message (currentQuestion st)) \<noteq> []"
  shows "last (chatHistory (fst (streamTurn parse True svc (StreamResponse cs None)
                                   clk documents message st))) =
           \<lparr>msg_id = toString (nowLoading clk) @ ''_ai_loading'', sender = AI,
            text = concat cs, timestamp = dateLoading clk, isLoading = Some True,
            sources = None\<rparr>"
    and "requests (fst (streamTurn parse True svc (StreamResponse cs None)
                          clk documents message st)) =
           requests st
           @ [GenerateContentStream (prompt documents (query message (currentQuestion st)))]
           @ fst (fetchSourceAttribution parse True svc (query message (currentQuestion st))
                    (contextSnippets documents) (concat cs))"
    and "loading (fst (streamTurn parse True svc (StreamResponse cs None)
                         clk documents message st))"
  using assms
  by (simp_all add: streamTurn_def handleSendMessage_accept generateTextStream_def
        fold_onChunk onComplete_apply last_updateLoading updateLoading_def)

lemma completeTurn_success:
  assumes "trim (query message (currentQuestion st)) \<noteq> []"
  shows "last (chatHistory (fst (completeTurn parse True svc (StreamResponse cs None)
                                   clk documents message st))) =
           \<lparr>msg_id = toString (nowFinal clk) @ ''_ai_final'', sender = AI,
            text = (if concat cs \<noteq> [] then concat cs else noResponse),
            timestamp = dateLoading clk, isLoading = Some False,
            sources = snd (fetchSourceAttribution parse True svc
                             (query message (currentQuestion st))
                             (contextSnippets documents) (concat cs))\<rparr>"
    and "requests (fst (completeTurn parse True svc (StreamResponse cs None)
                          clk documents message st)) =
         requests (fst (streamTurn parse True svc (StreamResponse cs None)
                          clk documents message st))"
    and "\<not> loading (fst (completeTurn parse True svc (StreamResponse cs None)
                           clk documents message st))"
  using assms
  by (simp_all add: completeTurn_def streamTurn_def handleSendMessage_accept
        generateTextStream_def fold_onChunk onComplete_apply onCompleteResume_apply
        last_updateLoading updateLoading_def)

lemma streamTurn_failure:
  assumes "trim (query message (currentQuestion st)) \<noteq> []"
  shows "last (chatHistory (fst (streamTurn parse True svc (StreamResponse cs (Some e))
                                   clk documents message st))) =
           \<lparr>msg_id = toString (nowFinal clk) @ ''_ai_final'', sender = AI,
            text = errorText, timestamp = dateLoading clk, isLoading = Some False,
            sources = None\<rparr>"
    and "requests (fst (streamTurn parse True svc (StreamResponse cs (Some e))
                          clk documents message st)) =
           requests st
           @ [GenerateContentStream (prompt documents (query message (currentQuestion st)))]
           @ fst (fetchSourceAttribution parse True svc (query message (currentQuestion st))
                    (contextSnippets documents) (concat cs))"
    and "\<not> loading (fst (streamTurn parse True svc (StreamResponse cs (Some e))
                           clk documents message st))"
  using assms
  by (simp_all add: streamTurn_def handleSendMessage_accept generateTextStream_def
        fold_onChunk onError_apply onComplete_apply last_updateLoading updateLoading_def)

lemma completeTurn_failure:
  assumes "trim (query message (currentQuestion st)) \<noteq> []"
  shows "last (chatHistory (fst (completeTurn parse True svc (StreamResponse cs (Some e))
                                   clk documents message st))) =
         last (chatHistory (fst (streamTurn parse True svc (StreamResponse cs (Some e))
                                   clk documents message st)))"
    and "requests (fst (completeTurn parse True svc (StreamResponse cs (Some e))
                          clk documents message st)) =
         requests (fst (streamTurn parse True svc (StreamResponse cs (Some e))
                          clk documents message st))"
  using assms
  by (simp_all add: completeTurn_def streamTurn_def handleSendMessage_accept
        generateTextStream_def fold_onChunk onError_apply onComplete_apply
        onCompleteResume_apply last_updateLoading updateLoading_def)


lemma example_query:
  "query (Some exampleQuestion) (currentQuestion initialAgent) = exampleQuestion"
  "trim (query (Some exampleQuestion) (currentQuestion initialAgent)) \<noteq> []"
  by (simp add: query_def truthy_def exampleQuestion_def, code_simp)

lemma example_answer:
  "concat exampleChunks = exampleAnswer" "trim exampleAnswer \<noteq> []" "trim ''Per '' \<noteq> []"
  by (simp add: exampleChunks_def exampleAnswer_def, code_simp, code_simp)

subsection \<open>The text of the entry and the chunks\<close>

text \<open>
  A stream that ends without an error after one empty chunk: the entry is finalized with the
  fixed text, not with the (empty) concatenation of the chunks.
\<close>

theorem final_text_empty_stream_counterexample:
  "text (last (chatHistory (fst (completeTurn exampleParse True exampleService
           (StreamResponse [[]] None) exampleClock [policyDoc] (Some exampleQuestion)
           initialAgent)))) = ''No further response.''
   \<and> text (last (chatHistory (fst (completeTurn exampleParse True exampleService
           (StreamResponse [[]] None) exampleClock [policyDoc] (Some exampleQuestion)
           initialAgent)))) \<noteq> concat [[]]"
  by (simp add: completeTurn_success(1) [OF example_query(2)] noResponse_def)

text \<open>
  C5, amended. For every sequence of chunks of a stream that ends without an error: once the
  chunks are delivered the text of the AI entry is their concatenation; the finalized entry
  has that text when it is not empty and the fixed text \<open>No further response.\<close> when it is
  empty; and two splits of the same total text give the same final entry.
\<close>

theorem final_text_is_concatenation:
  assumes "trim (query message (currentQuestion st)) \<noteq> []"
  shows "text (last (chatHistory (fst (streamTurn parse True svc (StreamResponse cs None)
                                         clk documents message st)))) = concat cs
    \<and> text (last (chatHistory (fst (completeTurn parse True svc (StreamResponse cs None)
                                         clk documents message st)))) =
        (if concat cs = [] then noResponse else concat cs)
    \<and> (concat cs \<noteq> [] \<longrightarrow>
         text (last (chatHistory (fst (completeTurn parse True svc (StreamResponse cs None)
                                         clk documents message st)))) = concat cs)
    \<and> (concat cs = concat ds \<longrightarrow>
         last (chatHistory (fst (completeTurn parse True svc (StreamResponse cs None)
                                   clk documents message st))) =
         last (chatHistory (fst (completeTurn parse True svc (StreamResponse ds None)
                                   clk documents message st))))"
  by (simp add: streamTurn_success(1) [OF assms] completeTurn_success(1) [OF assms])

theorem final_text_is_concatenation_witness:
  "trim (query (Some exampleQuestion) (currentQuestion initialAgent)) \<noteq> []
   \<and> concat exampleChunks \<noteq> []
   \<and> concat exampleChunks = concat [exampleAnswer]
   \<and> text (last (chatHistory (fst (completeTurn exampleParse True exampleService
             (StreamResponse exampleChunks None) exampleClock [policyDoc]
             (Some exampleQuestion) initialAgent)))) =
       ''Per policy.pdf, remote work is allowed 3 days/week.''
   \<and> last (chatHistory (fst (completeTurn exampleParse True exampleService
             (StreamResponse exampleChunks None) exampleClock [policyDoc]
             (Some exampleQuestion) initialAgent))) =
     last (chatHistory (fst (completeTurn exampleParse True exampleService
             (StreamResponse [exampleAnswer] None) exampleClock [policyDoc]
             (Some exampleQuestion) initialAgent)))"
proof -
  note th = final_text_is_concatenation
              [OF example_query(2), where cs = exampleChunks and ds = "[exampleAnswer]"
                 and parse = exampleParse and svc = exampleService and clk = exampleClock
                 and documents = "[policyDoc]"]
  have ne: "concat exampleChunks \<noteq> []"
    by (simp add: exampleChunks_def)
  have same: "concat exampleChunks = concat [exampleAnswer]"
    by (simp add: exampleChunks_def exampleAnswer_def)
  from th ne have one: "text (last (chatHistory (fst (completeTurn exampleParse True exampleService
             (StreamResponse exampleChunks None) exampleClock [policyDoc]
             (Some exampleQuestion) initialAgent)))) = concat exampleChunks"
    by blast
  from th same have two: "last (chatHistory (fst (completeTurn exampleParse True exampleService
             (StreamResponse exampleChunks None) exampleClock [policyDoc]
             (Some exampleQuestion) initialAgent))) =
     last (chatHistory (fst (completeTurn exampleParse True exampleService
             (StreamResponse [exampleAnswer] None) exampleClock [policyDoc]
             (Some exampleQuestion) initialAgent)))"
    by blast
  have whole: "concat exampleChunks = ''Per policy.pdf, remote work is allowed 3 days/week.''"
    by (simp add: exampleChunks_def)
  show ?thesis
    using example_query(2) ne same one two unfolding whole by (intro conjI)
qed

text \<open>
  C10. If the stream ends without an error and the accumulated answer is empty (no chunk
  arrived, or every chunk was empty), the finalized AI entry has the text
  \<open>No further response.\<close> and is no longer loading.
\<close>

theorem empty_answer_fallback:
  assumes "trim (query message (currentQuestion st)) \<noteq> []"
    and "\<forall>c \<in> set cs. c = []"
  shows "concat cs = []
    \<and> text (last (chatHistory (fst (completeTurn parse True svc (StreamResponse cs None)
                                         clk documents message st)))) = ''No further response.''
    \<and> isLoading (last (chatHistory (fst (completeTurn parse True svc (StreamResponse cs None)
                                         clk documents message st)))) = Some False"
proof -
  have "concat cs = []"
    using assms(2) by (induction cs) simp_all
  then show ?thesis
    by (simp add: completeTurn_success(1) [OF assms(1)] noResponse_def)
qed

theorem empty_answer_fallback_witness:
  "trim (query (Some exampleQuestion) (currentQuestion initialAgent)) \<noteq> []
   \<and> text (last (chatHistory (fst (completeTurn exampleParse True exampleService
             (StreamResponse [[], []] None) exampleClock [policyDoc]
             (Some exampleQuestion) initialAgent)))) = ''No further response.''"
  using empty_answer_fallback
          [OF example_query(2), where cs = "[[], []]" and parse = exampleParse
             and svc = exampleService and clk = exampleClock and documents = "[policyDoc]"]
        example_query(2)
  by simp

lemma example_start:
  "requests initialAgent = []"
  "nowLoading exampleClock = 1700000000001"
  "dateLoading exampleClock = 1700000000001"
  "nowFinal exampleClock = 1700000000002"
  "exampleAnswer \<noteq> []"
  by (simp_all add: initialAgent_def exampleClock_def exampleAnswer_def)

lemma example_parse_policy:
  "exampleParse ''[\"policy.pdf\"]'' = Inr (JArray [JString ''policy.pdf''])"
proof -
  have pv: "parseValue (Suc (length ''[\"policy.pdf\"]'')) ''[\"policy.pdf\"]'' =
              Some (JArray [JString ''policy.pdf''], [])"
    by code_simp
  show ?thesis
    unfolding exampleParse_def JSON_parse_def pv by simp
qed

lemma example_context:
  "fetchSourceAttribution exampleParse True exampleService exampleQuestion
     (contextSnippets [policyDoc]) exampleAnswer =
   ([GenerateContentJson
       (attributionPrompt exampleQuestion (contextSnippets [policyDoc]) exampleAnswer)],
    Some [''policy.pdf''])"
proof -
  have strip: "stripFence ''[\"policy.pdf\"]'' = ''[\"policy.pdf\"]''"
    by code_simp
  note parse = example_parse_policy
  show ?thesis
    by (simp add: fetchSourceAttribution_call [OF example_answer(2)] generateJson_responded
          exampleService_def strip parse)
qed

subsection \<open>Attribution and finalization after a successful stream\<close>

text \<open>
  The example turn, at the point where the stream has ended and the completion callback is
  waiting: the attribution request has been sent, and the AI entry is still loading.
\<close>

theorem attribution_before_finalization_counterexample:
  "requests (fst (streamTurn exampleParse True exampleService (StreamResponse exampleChunks None)
                    exampleClock [policyDoc] (Some exampleQuestion) initialAgent)) =
     [GenerateContentStream (prompt [policyDoc] exampleQuestion),
      GenerateContentJson
        (attributionPrompt exampleQuestion (contextSnippets [policyDoc]) exampleAnswer)]
   \<and> isLoading (last (chatHistory (fst (streamTurn exampleParse True exampleService
                    (StreamResponse exampleChunks None)
                    exampleClock [policyDoc] (Some exampleQuestion) initialAgent)))) = Some True"
proof -
  note waiting = streamTurn_success
                   [OF example_query(2), where parse = exampleParse and svc = exampleService
                      and cs = exampleChunks and clk = exampleClock
                      and documents = "[policyDoc]"]
  show ?thesis
    by (simp add: waiting example_query(1) example_answer(1) example_context example_start)
qed

text \<open>
  C1, amended. After a stream that ended without an error, the completion callback first
  calls the attribution resolver, which sends its request at once unless the answer is
  blank; at that point the AI entry still has \<open>isLoading = true\<close> and the component is still
  loading. Only when the attribution promise has been resolved is the entry finalized, in
  one update: \<open>isLoading = false\<close>, the final id, the text (the accumulated answer, or the
  fixed text if it is empty) and the sources that attribution returned. Finalization sends
  no further request.
\<close>

theorem attribution_then_finalization:
  assumes "trim (query message (currentQuestion st)) \<noteq> []"
  shows "requests (fst (streamTurn parse True svc (StreamResponse cs None)
                          clk documents message st)) =
           requests st
           @ [GenerateContentStream (prompt documents (query message (currentQuestion st)))]
           @ (if trim (concat cs) = [] then []
              else [GenerateContentJson
                      (attributionPrompt (query message (currentQuestion st))
                         (contextSnippets documents) (concat cs))])
    \<and> last (chatHistory (fst (streamTurn parse True svc (StreamResponse cs None)
                                   clk documents message st))) =
           \<lparr>msg_id = toString (nowLoading clk) @ ''_ai_loading'', sender = AI,
            text = concat cs, timestamp = dateLoading clk, isLoading = Some True,
            sources = None\<rparr>
    \<and> loading (fst (streamTurn parse True svc (StreamResponse cs None)
                         clk documents message st))
    \<and> last (chatHistory (fst (completeTurn parse True svc (StreamResponse cs None)
                                   clk documents message st))) =
           \<lparr>msg_id = toString (nowFinal clk) @ ''_ai_final'', sender = AI,
            text = (if concat cs \<noteq> [] then concat cs else noResponse),
            timestamp = dateLoading clk, isLoading = Some False,
            sources = snd (fetchSourceAttribution parse True svc
                             (query message (currentQuestion st))
                             (contextSnippets documents) (concat cs))\<rparr>
    \<and> requests (fst (completeTurn parse True svc (StreamResponse cs None)
                          clk documents message st)) =
       requests (fst (streamTurn parse True svc (StreamResponse cs None)
                          clk documents message st))
    \<and> \<not> loading (fst (completeTurn parse True svc (StreamResponse cs None)
                           clk documents message st))"
proof -
  have "fst (fetchSourceAttribution parse True svc (query message (currentQuestion st))
               (contextSnippets documents) (concat cs)) =
        (if trim (concat cs) = [] then []
         else [GenerateContentJson
                 (attributionPrompt (query message (currentQuestion st))
                    (contextSnippets documents) (concat cs))])"
    by (simp add: fetchSourceAttribution_skip fetchSourceAttribution_call)
  then show ?thesis
    by (simp add: streamTurn_success [OF assms] completeTurn_success [OF assms])
qed

theorem attribution_then_finalization_witness:
  "trim (query (Some exampleQuestion) (currentQuestion initialAgent)) \<noteq> []
   \<and> last (chatHistory (fst (streamTurn exampleParse True exampleService
             (StreamResponse exampleChunks None) exampleClock [policyDoc]
             (Some exampleQuestion) initialAgent))) =
       \<lparr>msg_id = toString 1700000000001 @ ''_ai_loading'', sender = AI,
        text = exampleAnswer, timestamp = 1700000000001, isLoading = Some True,
        sources = None\<rparr>
   \<and> last (chatHistory (fst (completeTurn exampleParse True exampleService
             (StreamResponse exampleChunks None) exampleClock [policyDoc]
             (Some exampleQuestion) initialAgent))) =
       \<lparr>msg_id = toString 1700000000002 @ ''_ai_final'', sender = AI,
        text = exampleAnswer, timestamp = 1700000000001, isLoading = Some False,
        sources = Some [''policy.pdf'']\<rparr>"
  using attribution_then_finalization
          [OF example_query(2), where cs = exampleChunks and parse = exampleParse
             and svc = exampleService and clk = exampleClock and documents = "[policyDoc]"]
        example_query(2)
  by (simp add: example_query(1) example_answer example_context example_start)

lemma example_partial:
  "fetchSourceAttribution exampleParse True exampleService exampleQuestion
     (contextSnippets [policyDoc]) ''Per '' =
   ([GenerateContentJson
       (attributionPrompt exampleQuestion (contextSnippets [policyDoc]) ''Per '')],
    Some [''policy.pdf''])"
proof -
  have strip: "stripFence ''[\"policy.pdf\"]'' = ''[\"policy.pdf\"]''"
    by code_simp
  note parse = example_parse_policy
  show ?thesis
    by (simp add: fetchSourceAttribution_call [OF example_answer(3)] generateJson_responded
          exampleService_def strip parse)
qed

subsection \<open>A stream that fails\<close>

text \<open>
  The example turn with a stream that fails after its first chunk: the completion callback,
  which runs after the error callback, sends the attribution request for the partial answer.
\<close>

theorem attribution_after_error_counterexample:
  "requests (fst (completeTurn exampleParse True exampleService
                    (StreamResponse [''Per ''] (Some ''connection reset''))
                    exampleClock [policyDoc] (Some exampleQuestion) initialAgent)) =
     [GenerateContentStream (prompt [policyDoc] exampleQuestion),
      GenerateContentJson
        (attributionPrompt exampleQuestion (contextSnippets [policyDoc]) ''Per '')]"
proof -
  note failed = streamTurn_failure
                  [OF example_query(2), where parse = exampleParse and svc = exampleService
                     and cs = "[''Per '']" and e = "''connection reset''"
                     and clk = exampleClock and documents = "[policyDoc]"]
  note resumed = completeTurn_failure
                   [OF example_query(2), where parse = exampleParse and svc = exampleService
                      and cs = "[''Per '']" and e = "''connection reset''"
                      and clk = exampleClock and documents = "[policyDoc]"]
  show ?thesis
    by (simp add: resumed failed example_query(1) example_partial example_start)
qed

text \<open>
  C2, amended. When the stream fails, the text of the loading AI entry is replaced by the
  fixed error text, \<open>isLoading\<close> becomes false and the entry takes its final id, whatever
  chunks arrived before; the completion callback that follows leaves the entry as it is, so
  no sources are ever attached. The attribution request is still sent when the chunks that
  arrived before the error are not blank, and is not sent when they are blank.
\<close>

theorem stream_error_finalizes:
  assumes "trim (query message (currentQuestion st)) \<noteq> []"
  shows "last (chatHistory (fst (streamTurn parse True svc (StreamResponse cs (Some e))
                                   clk documents message st))) =
           \<lparr>msg_id = toString (nowFinal clk) @ ''_ai_final'', sender = AI,
            text = ''Sorry, an error occurred while generating the answer.'',
            timestamp = dateLoading clk, isLoading = Some False, sources = None\<rparr>
    \<and> last (chatHistory (fst (completeTurn parse True svc (StreamResponse cs (Some e))
                                   clk documents message st))) =
       last (chatHistory (fst (streamTurn parse True svc (StreamResponse cs (Some e))
                                   clk documents message st)))
    \<and> requests (fst (completeTurn parse True svc (StreamResponse cs (Some e))
                          clk documents message st)) =
           requests st
           @ [GenerateContentStream (prompt documents (query message (currentQuestion st)))]
           @ (if trim (concat cs) = [] then []
              else [GenerateContentJson
                      (attributionPrompt (query message (currentQuestion st))
                         (contextSnippets documents) (concat cs))])
    \<and> \<not> loading (fst (streamTurn parse True svc (StreamResponse cs (Some e))
                           clk documents message st))"
proof -
  have "fst (fetchSourceAttribution parse True svc (query message (currentQuestion st))
               (contextSnippets documents) (concat cs)) =
        (if trim (concat cs) = [] then []
         else [GenerateContentJson
                 (attributionPrompt (query message (currentQuestion st))
                    (contextSnippets documents) (concat cs))])"
    by (simp add: fetchSourceAttribution_skip fetchSourceAttribution_call)
  then show ?thesis
    by (simp add: streamTurn_failure [OF assms] completeTurn_failure [OF assms] errorText_def)
qed

theorem stream_error_finalizes_witness:
  "trim (query (Some exampleQuestion) (currentQuestion initialAgent)) \<noteq> []
   \<and> last (chatHistory (fst (completeTurn exampleParse True exampleService
             (StreamResponse [''Per ''] (Some ''connection reset'')) exampleClock [policyDoc]
             (Some exampleQuestion) initialAgent))) =
       \<lparr>msg_id = toString 1700000000002 @ ''_ai_final'', sender = AI,
        text = ''Sorry, an error occurred while generating the answer.'',
        timestamp = 1700000000001, isLoading = Some False, sources = None\<rparr>"
  using stream_error_finalizes
          [OF example_query(2), where cs = "[''Per '']" and e = "''connection reset''"
             and parse = exampleParse and svc = exampleService and clk = exampleClock
             and documents = "[policyDoc]"]
        example_query(2)
  by (simp add: example_start)

section \<open>Sources are attached to final entries only\<close>

lemma sourcesOnlyWhenFinal_update:
  assumes "sourcesOnlyWhenFinal h"
    and "\<And>m. sources m = None \<or> isLoading m = Some False \<Longrightarrow>
              sources (f m) = None \<or> isLoading (f m) = Some False"
  shows "sourcesOnlyWhenFinal (updateLoading lid f h)"
  using assms by (fastforce simp: sourcesOnlyWhenFinal_def updateLoading_def)

lemma onChunk_keeps:
  "sourcesOnlyWhenFinal (chatHistory st) \<Longrightarrow>
   sourcesOnlyWhenFinal (chatHistory (snd (onChunk c (t, st))))"
  by (simp add: onChunk_apply sourcesOnlyWhenFinal_update)

lemma onError_keeps:
  "sourcesOnlyWhenFinal (chatHistory st) \<Longrightarrow>
   sourcesOnlyWhenFinal (chatHistory (snd (onError e (t, st))))"
  by (simp add: onError_apply sourcesOnlyWhenFinal_update)

lemma onComplete_keeps:
  "chatHistory (snd (onComplete parse ai svc (t, st))) = chatHistory st"
  by (simp add: onComplete_apply)

lemma onCompleteResume_keeps:
  "sourcesOnlyWhenFinal (chatHistory st) \<Longrightarrow>
   sourcesOnlyWhenFinal (chatHistory (snd (onCompleteResume (t, st))))"
  by (simp add: onCompleteResume_apply sourcesOnlyWhenFinal_update)

lemma handleSendMessage_keeps:
  "sourcesOnlyWhenFinal (chatHistory st) \<Longrightarrow>
   sourcesOnlyWhenFinal (chatHistory (fst (handleSendMessage ai clk documents message st)))"
  by (auto simp: handleSendMessage_def Let_def sourcesOnlyWhenFinal_def)

lemma withTurn_history:
  "chatHistory (fst (withTurn i p f (st, ts))) = chatHistory (snd (f (ts ! i, st)))"
  by (simp add: withTurn_def split: prod.splits)

lemma step_keeps:
  "sourcesOnlyWhenFinal (chatHistory (fst cfg)) \<Longrightarrow>
   sourcesOnlyWhenFinal (chatHistory (fst (step parse ai svc ev cfg)))"
proof (cases cfg)
  case (Pair st ts)
  assume inv: "sourcesOnlyWhenFinal (chatHistory (fst cfg))"
  show ?thesis
  proof (cases ev)
    case (Submit message clk documents)
    with Pair inv handleSendMessage_keeps [of st ai clk documents message] show ?thesis
      by (auto split: prod.splits option.splits)
  next
    case (Chunk i c)
    with Pair inv show ?thesis
      by (simp add: withTurn_history onChunk_keeps)
  next
    case (Fail i e)
    with Pair inv onError_keeps [of st e "ts ! i"] show ?thesis
      by (cases "onError e (ts ! i, st)") (simp add: withTurn_history onComplete_keeps)
  next
    case (End i)
    with Pair inv show ?thesis
      by (simp add: withTurn_history onComplete_keeps)
  next
    case (Resume i)
    with Pair inv show ?thesis
      by (simp add: withTurn_history onCompleteResume_keeps)
  qed
qed

lemma fold_step_keeps:
  "sourcesOnlyWhenFinal (chatHistory (fst cfg)) \<Longrightarrow>
   sourcesOnlyWhenFinal (chatHistory (fst (fold (step parse ai svc) evs cfg)))"
  by (induction evs arbitrary: cfg) (simp_all add: step_keeps)

text \<open>
  C9. In every state that any sequence of events reaches from the initial state (submissions,
  chunks, failures and ends of streams, resolutions of attribution, of any number of turns in
  any interleaving), every chat message that has a sources list has \<open>isLoading = false\<close>.
\<close>

theorem sources_only_on_final_entries:
  "\<forall>m \<in> set (chatHistory (fst (run parse ai svc evs))).
     sources m \<noteq> None \<longrightarrow> isLoading m = Some False"
proof -
  have "sourcesOnlyWhenFinal (chatHistory (fst (initialAgent, [])))"
    by (simp add: sourcesOnlyWhenFinal_def initialAgent_def)
  then have "sourcesOnlyWhenFinal (chatHistory (fst (run parse ai svc evs)))"
    unfolding run_def by (rule fold_step_keeps)
  then show ?thesis
    by (simp add: sourcesOnlyWhenFinal_def)
qed


subsection \<open>The events of one turn are the run of generateTextStream\<close>

lemma phase_update_same: "phase t = p \<Longrightarrow> t\<lparr>phase := p\<rparr> = t"
  by (cases t) simp

lemma fold_chunks:
  assumes "i < length ts" and "phase (ts ! i) = Streaming"
  shows "fold (step parse ai svc) (map (Chunk i) cs) (st, ts) =
           (snd (fold onChunk cs (ts ! i, st)), ts[i := fst (fold onChunk cs (ts ! i, st))])"
  using assms
proof (induction cs arbitrary: st ts)
  case Nil
  then show ?case by simp
next
  case (Cons c cs)
  let ?t = "(ts ! i)\<lparr>accumulatedAnswer := accumulatedAnswer (ts ! i) @ c\<rparr>"
  let ?st = "st\<lparr>chatHistory :=
                updateLoading (loadingAiMessageId (ts ! i))
                  (\<lambda>msg. msg\<lparr>text := accumulatedAnswer (ts ! i) @ c\<rparr>) (chatHistory st)\<rparr>"
  have one: "step parse ai svc (Chunk i c) (st, ts) = (?st, ts[i := ?t])"
    using Cons.prems by (simp add: inPhase_def withTurn_def onChunk_apply phase_update_same)
  have next_turn: "i < length (ts[i := ?t])" "phase (ts[i := ?t] ! i) = Streaming"
    "ts[i := ?t] ! i = ?t"
    using Cons.prems by simp_all
  have "fold (step parse ai svc) (map (Chunk i) (c # cs)) (st, ts) =
        fold (step parse ai svc) (map (Chunk i) cs) (step parse ai svc (Chunk i c) (st, ts))"
    by (simp del: step.simps)
  also have "\<dots> = fold (step parse ai svc) (map (Chunk i) cs) (?st, ts[i := ?t])"
    by (simp only: one)
  also have "\<dots> = (snd (fold onChunk cs (?t, ?st)),
                    ts[i := ?t, i := fst (fold onChunk cs (?t, ?st))])"
    using Cons.IH [OF next_turn(1,2), of ?st] by (simp only: next_turn(3))
  finally show ?case
    by (simp add: onChunk_apply)
qed

lemma stream_events:
  assumes "i < length ts" and "phase (ts ! i) = Streaming"
  shows "fold (step parse True svc)
           (map (Chunk i) cs @ [case fl of None \<Rightarrow> End i | Some e \<Rightarrow> Fail i e]) (st, ts) =
         (case generateTextStream True (StreamResponse cs fl) onChunk onError
                 (onComplete parse True svc) (ts ! i, st) of
            (t', st') \<Rightarrow> (st', ts[i := t'\<lparr>phase := Attributing\<rparr>]))"
proof -
  obtain t1 st1 where f: "fold onChunk cs (ts ! i, st) = (t1, st1)"
    by (cases "fold onChunk cs (ts ! i, st)")
  have ph: "phase t1 = Streaming"
    using f assms(2) by (auto simp: fold_onChunk)
  show ?thesis
  proof (cases fl)
    case None
    then show ?thesis
      using assms ph
      by (simp add: fold_chunks f generateTextStream_def inPhase_def withTurn_def
            split: prod.splits)
  next
    case (Some e)
    then show ?thesis
      using assms ph
      by (simp add: fold_chunks f generateTextStream_def inPhase_def withTurn_def
            split: prod.splits)
  qed
qed

lemma run_turn:
  assumes "trim (query message (currentQuestion st)) \<noteq> []"
  shows "fst (fold (step parse True svc)
                (Submit message clk documents
                 # map (Chunk (length ts)) cs
                 @ [case fl of None \<Rightarrow> End (length ts) | Some e \<Rightarrow> Fail (length ts) e])
                (st, ts)) =
         fst (streamTurn parse True svc (StreamResponse cs fl) clk documents message st)"
    and "fst (fold (step parse True svc)
                (Submit message clk documents
                 # (map (Chunk (length ts)) cs
                    @ [case fl of None \<Rightarrow> End (length ts) | Some e \<Rightarrow> Fail (length ts) e])
                 @ [Resume (length ts)])
                (st, ts)) =
         fst (completeTurn parse True svc (StreamResponse cs fl) clk documents message st)"
proof -
  obtain st0 t0 where sub: "handleSendMessage True clk documents message st = (st0, Some t0)"
    and ph: "phase t0 = Streaming"
    using handleSendMessage_accept [OF assms, of clk documents] by simp
  obtain t1 st1 where gen: "generateTextStream True (StreamResponse cs fl) onChunk onError
                              (onComplete parse True svc) (t0, st0) = (t1, st1)"
    by (cases "generateTextStream True (StreamResponse cs fl) onChunk onError
                 (onComplete parse True svc) (t0, st0)")
  have ev: "fold (step parse True svc)
              (map (Chunk (length ts)) cs
               @ [case fl of None \<Rightarrow> End (length ts) | Some e \<Rightarrow> Fail (length ts) e])
              (st0, ts @ [t0]) =
            (st1, (ts @ [t0])[length ts := t1\<lparr>phase := Attributing\<rparr>])"
    using stream_events [of "length ts" "ts @ [t0]" parse svc cs fl st0] ph gen
    by simp
  show "fst (fold (step parse True svc)
                (Submit message clk documents
                 # map (Chunk (length ts)) cs
                 @ [case fl of None \<Rightarrow> End (length ts) | Some e \<Rightarrow> Fail (length ts) e])
                (st, ts)) =
         fst (streamTurn parse True svc (StreamResponse cs fl) clk documents message st)"
    by (simp add: sub ev streamTurn_def gen del: fold_append)
  show "fst (fold (step parse True svc)
                (Submit message clk documents
                 # (map (Chunk (length ts)) cs
                    @ [case fl of None \<Rightarrow> End (length ts) | Some e \<Rightarrow> Fail (length ts) e])
                 @ [Resume (length ts)])
                (st, ts)) =
         fst (completeTurn parse True svc (StreamResponse cs fl) clk documents message st)"
    using fold_append [of "step parse True svc"
            "map (Chunk (length ts)) cs
             @ [case fl of None \<Rightarrow> End (length ts) | Some e \<Rightarrow> Fail (length ts) e]"
            "[Resume (length ts)]"]
    by (simp add: sub ev completeTurn_def streamTurn_def gen inPhase_def withTurn_def
          split: prod.splits del: fold_append)
qed


lemma completeTurn_history_nonempty:
  assumes "trim (query message (currentQuestion st)) \<noteq> []"
  shows "chatHistory (fst (completeTurn parse True svc (StreamResponse cs None)
                             clk documents message st)) \<noteq> []"
  using assms
  by (simp add: completeTurn_def streamTurn_def handleSendMessage_accept
        generateTextStream_def fold_onChunk onComplete_apply onCompleteResume_apply
        updateLoading_def)

lemma example_run:
  "fst (run exampleParse True exampleService exampleEvents) =
   fst (completeTurn exampleParse True exampleService (StreamResponse exampleChunks None)
          exampleClock [policyDoc] (Some exampleQuestion) initialAgent)"
proof -
  have "exampleEvents =
          Submit (Some exampleQuestion) exampleClock [policyDoc]
          # (map (Chunk (length ([]::turn list))) exampleChunks
             @ [case None of None \<Rightarrow> End (length ([]::turn list))
                | Some e \<Rightarrow> Fail (length ([]::turn list)) e])
          @ [Resume (length ([]::turn list))]"
    by (simp add: exampleEvents_def exampleChunks_def)
  then show ?thesis
    unfolding run_def
    using run_turn(2) [OF example_query(2), of exampleParse exampleService exampleClock
                         "[policyDoc]" "[]" exampleChunks None]
    by simp
qed

theorem sources_only_on_final_entries_witness:
  "last (chatHistory (fst (run exampleParse True exampleService exampleEvents)))
     \<in> set (chatHistory (fst (run exampleParse True exampleService exampleEvents)))
   \<and> sources (last (chatHistory (fst (run exampleParse True exampleService exampleEvents)))) =
       Some [''policy.pdf'']
   \<and> isLoading (last (chatHistory (fst (run exampleParse True exampleService exampleEvents)))) =
       Some False"
proof -
  let ?h = "chatHistory (fst (run exampleParse True exampleService exampleEvents))"
  have ne: "?h \<noteq> []"
    unfolding example_run by (rule completeTurn_history_nonempty [OF example_query(2)])
  then have mem: "last ?h \<in> set ?h"
    by simp
  have src: "sources (last ?h) = Some [''policy.pdf'']"
    unfolding example_run
    by (simp add: completeTurn_success(1) [OF example_query(2)] example_query(1)
          example_answer(1) example_context)
  from sources_only_on_final_entries [of exampleParse True exampleService exampleEvents] mem src
  have "isLoading (last ?h) = Some False"
    by auto
  with mem src show ?thesis
    by (intro conjI)
qed

section \<open>Submitting without a client\<close>

lemma step_unavailable:
  "step parse False svc ev (st, []) = (st', ts') \<Longrightarrow>
   ts' = [] \<and> chatHistory st' = chatHistory st \<and> loading st' = loading st
   \<and> requests st' = requests st"
  by (cases ev)
     (auto simp: handleSendMessage_def Let_def isAIServiceAvailable_def inPhase_def
           split: if_splits)

lemma fold_step_unavailable:
  "fold (step parse False svc) evs (st, []) = (st', ts') \<Longrightarrow>
   ts' = [] \<and> chatHistory st' = chatHistory st \<and> loading st' = loading st
   \<and> requests st' = requests st"
proof (induction evs arbitrary: st)
  case Nil
  then show ?case by simp
next
  case (Cons ev evs)
  obtain st1 ts1 where one: "step parse False svc ev (st, []) = (st1, ts1)"
    by (cases "step parse False svc ev (st, [])")
  from step_unavailable [OF one] have ts1: "ts1 = []"
    and keep: "chatHistory st1 = chatHistory st" "loading st1 = loading st"
      "requests st1 = requests st"
    by simp_all
  from Cons.prems one ts1 have "fold (step parse False svc) evs (st1, []) = (st', ts')"
    by (simp del: step.simps)
  from Cons.IH [OF this] keep show ?case
    by simp
qed

text \<open>
  C8. With no client, \<open>handleSendMessage\<close> starts no turn: the transcript, the loading flag
  and the list of requests are as before, so no entry is appended and no loading state is
  entered. A query that is not blank ends, in the call itself, in the fixed alert; a blank
  one changes nothing. Whatever events follow, the transcript stays empty, nothing is loading
  and no request is sent.
\<close>

theorem unavailable_never_loading:
  "snd (handleSendMessage False clk documents message st) = None
   \<and> chatHistory (fst (handleSendMessage False clk documents message st)) = chatHistory st
   \<and> loading (fst (handleSendMessage False clk documents message st)) = loading st
   \<and> requests (fst (handleSendMessage False clk documents message st)) = requests st
   \<and> (trim (query message (currentQuestion st)) \<noteq> [] \<longrightarrow>
        alerts (fst (handleSendMessage False clk documents message st)) =
          alerts st @ [''AI Service is not available. Please check API key configuration.''])
   \<and> (trim (query message (currentQuestion st)) = [] \<longrightarrow>
        fst (handleSendMessage False clk documents message st) = st)
   \<and> completeTurn parse False svc rs clk documents message st =
       handleSendMessage False clk documents message st
   \<and> chatHistory (fst (run parse False svc evs)) = []
   \<and> \<not> loading (fst (run parse False svc evs))
   \<and> requests (fst (run parse False svc evs)) = []
   \<and> snd (run parse False svc evs) = []"
proof -
  obtain st' ts' where r: "fold (step parse False svc) evs (initialAgent, []) = (st', ts')"
    by (cases "fold (step parse False svc) evs (initialAgent, [])")
  have init: "chatHistory initialAgent = []" "\<not> loading initialAgent"
    "requests initialAgent = []"
    by (simp_all add: initialAgent_def)
  from fold_step_unavailable [OF r] have
    "chatHistory (fst (run parse False svc evs)) = []
     \<and> \<not> loading (fst (run parse False svc evs))
     \<and> requests (fst (run parse False svc evs)) = []
     \<and> snd (run parse False svc evs) = []"
    by (simp add: run_def r init)
  moreover have "completeTurn parse False svc rs clk documents message st =
                 handleSendMessage False clk documents message st"
    by (simp add: completeTurn_def streamTurn_def handleSendMessage_def Let_def
          isAIServiceAvailable_def)
  ultimately show ?thesis
    by (simp add: handleSendMessage_def Let_def isAIServiceAvailable_def unavailableAlert_def)
qed

theorem unavailable_never_loading_witness:
  "trim (query (Some exampleQuestion) (currentQuestion initialAgent)) \<noteq> []
   \<and> handleSendMessage False exampleClock [policyDoc] (Some exampleQuestion) initialAgent =
       (initialAgent\<lparr>alerts :=
          [''AI Service is not available. Please check API key configuration.'']\<rparr>, None)
   \<and> chatHistory (fst (run exampleParse False exampleService exampleEvents)) = []"
proof -
  note th = unavailable_never_loading
              [of exampleClock "[policyDoc]" "Some exampleQuestion" initialAgent
                  exampleParse exampleService "StreamResponse exampleChunks None" exampleEvents]
  let ?r = "handleSendMessage False exampleClock [policyDoc] (Some exampleQuestion) initialAgent"
  from th example_query(2) have
    a: "alerts (fst ?r) = alerts initialAgent
          @ [''AI Service is not available. Please check API key configuration.'']"
    by blast
  from th have b: "snd ?r = None" "chatHistory (fst ?r) = chatHistory initialAgent"
    "loading (fst ?r) = loading initialAgent" "requests (fst ?r) = requests initialAgent"
    by blast+
  have c: "currentQuestion (fst ?r) = currentQuestion initialAgent"
    by (simp add: handleSendMessage_def Let_def isAIServiceAvailable_def)
  have "fst ?r = initialAgent\<lparr>alerts :=
          [''AI Service is not available. Please check API key configuration.'']\<rparr>"
    using a b(2-4) c by (cases "fst ?r") (simp add: initialAgent_def)
  then have one: "?r = (initialAgent\<lparr>alerts :=
          [''AI Service is not available. Please check API key configuration.'']\<rparr>, None)"
    using b(1) by (simp add: prod_eq_iff)
  from th have two: "chatHistory (fst (run exampleParse False exampleService exampleEvents)) = []"
    by blast
  show ?thesis
    using example_query(2) one two by (intro conjI)
qed

end
